theory Spec2Isabelle
  imports Main "HOL-Library.Word" "HOL-Library.Sublist" "HOL-Library.Multiset"
begin

section \<open>Values exchanged with the HTTP client\<close>

text \<open>
  The routes of \<^verbatim>\<open>src/index.js\<close> read the parsed JSON request body. A field of that
  body is either absent (\<open>None\<close>, JavaScript's \<^verbatim>\<open>undefined\<close>) or a JSON value.
  Strings are byte strings. A number of the model is an integer \<open>n\<close> with
  \<open>- 2^53 \<le> n < 2^53\<close>, kept as a word of 54 bits and read by \<open>sint\<close>: these are the
  integers that a JavaScript number, an IEEE double, holds exactly and prints digit by
  digit. Fractions and larger numbers are outside the model.
\<close>

type_synonym number = "54 word"

datatype json =
    JNull
  | JBool bool
  | JNum number
  | JStr string
  | JArr "json list"
  | JObj "(string \<times> json) list"

text \<open>
  A JavaScript error: either one with a \<^verbatim>\<open>message\<close> only, or one that carries a
  \<^verbatim>\<open>response\<close> whose \<^verbatim>\<open>body\<close> is given (or undefined).
\<close>

datatype js_error = JsError string | JsResponseError string "json option"

text \<open>JavaScript truthiness, as used by \<^verbatim>\<open>!to\<close>, \<^verbatim>\<open>if (useHtmlTemplate)\<close> and \<^verbatim>\<open>if (search)\<close>.\<close>

fun truthy :: "json option \<Rightarrow> bool" where
  "truthy None = False"
| "truthy (Some JNull) = False"
| "truthy (Some (JBool b)) = b"
| "truthy (Some (JNum n)) = (n \<noteq> 0)"
| "truthy (Some (JStr s)) = (s \<noteq> [])"
| "truthy (Some (JArr xs)) = True"
| "truthy (Some (JObj kvs)) = True"

definition digit_char :: "nat \<Rightarrow> char" where
  "digit_char d = ''0123456789'' ! d"

text \<open>Decimal rendering of a loop index inside a template literal, \<^verbatim>\<open>`image-${i+1}`\<close>.\<close>

function string_of_nat :: "nat \<Rightarrow> string" where
  "string_of_nat n =
     (if n < 10 then [digit_char n]
      else string_of_nat (n div 10) @ [digit_char (n mod 10)])"
  by pat_completeness auto
termination
  by (relation "measure (\<lambda>n. n)") auto

declare string_of_nat.simps [simp del]

text \<open>\<^verbatim>\<open>Number.prototype.toString\<close> on a number of the model: its digits, after the sign.\<close>

definition Number_toString :: "number \<Rightarrow> string" where
  "Number_toString n =
     (if sint n < 0 then CHR ''-'' # string_of_nat (nat (- sint n))
      else string_of_nat (nat (sint n)))"

text \<open>\<^verbatim>\<open>Array.prototype.join\<close>.\<close>

fun join :: "string \<Rightarrow> string list \<Rightarrow> string" where
  "join sep [] = []"
| "join sep [x] = x"
| "join sep (x # y # ys) = x @ sep @ join sep (y # ys)"

text \<open>The strings of the elements of an array, or the first error thrown for one of them.\<close>

fun collect :: "(js_error + string) list \<Rightarrow> js_error + string list" where
  "collect [] = Inr []"
| "collect (Inl error # rs) = Inl error"
| "collect (Inr s # rs) =
     (case collect rs of Inl error \<Rightarrow> Inl error | Inr ss \<Rightarrow> Inr (s # ss))"

text \<open>
  \<^verbatim>\<open>${v}\<close> in a template literal converts \<open>v\<close> to a string. A string is taken as it
  is. An array is joined with commas, a \<^verbatim>\<open>null\<close> element giving the empty string and any
  other element being converted in turn. A parsed JSON object has no callable property of
  its own: without an own key \<^verbatim>\<open>toString\<close> it inherits \<^verbatim>\<open>Object.prototype.toString\<close> and
  prints as \<^verbatim>\<open>[object Object]\<close>; with such a key the conversion finds no method that
  returns a primitive value and throws a \<^verbatim>\<open>TypeError\<close>.
\<close>

fun ToString :: "json \<Rightarrow> js_error + string" where
  "ToString JNull = Inr ''null''"
| "ToString (JBool b) = Inr (if b then ''true'' else ''false'')"
| "ToString (JNum n) = Inr (Number_toString n)"
| "ToString (JStr s) = Inr s"
| "ToString (JArr xs) =
     (case collect (map (\<lambda>x. if x = JNull then Inr [] else ToString x) xs) of
        Inl error \<Rightarrow> Inl error
      | Inr ss \<Rightarrow> Inr (join '','' ss))"
| "ToString (JObj kvs) =
     (if ''toString'' \<in> set (map fst kvs)
      then Inl (JsError ''Cannot convert object to primitive value'')
      else Inr ''[object Object]'')"

text \<open>
  The fields that the routes destructure from \<^verbatim>\<open>req.body\<close>. The two key lists are
  absent or arrays of strings, \<^verbatim>\<open>embeddedImageCount\<close> is absent or a number.
\<close>

record request_body =
  to :: "json option"
  subject :: "json option"
  body :: "json option"
  attachmentKeys :: "string list option"
  embeddedImageKeys :: "string list option"
  useHtmlTemplate :: "json option"
  embeddedImageCount :: "number option"

section \<open>The EmailLog model and the message handed to the mail provider\<close>

text \<open>The sub-documents of the \<^verbatim>\<open>EmailLog\<close> schema (lines 34 to 53).\<close>

record embedded_image_log =
  img_cid :: string
  img_filename :: string
  img_s3Key :: string
  img_contentType :: string
  img_size :: nat

record attachment_log =
  att_filename :: string
  att_s3Key :: string
  att_contentType :: string
  att_size :: nat

text \<open>A stored document: the schema's fields with their declared types; the timestamp is
  in milliseconds.\<close>

record email_log =
  log_to :: string
  log_subject :: string
  log_body :: string
  log_htmlBody :: string
  log_embeddedImages :: "embedded_image_log list"
  log_attachments :: "attachment_log list"
  log_timestamp :: int

text \<open>The object literal that the send route passes to \<^verbatim>\<open>EmailLog.create\<close> (lines 223 to 230).\<close>

record email_doc =
  doc_to :: json
  doc_subject :: json
  doc_body :: json
  doc_htmlBody :: json
  doc_embeddedImages :: "embedded_image_log list"
  doc_attachments :: "attachment_log list"

text \<open>An element of \<^verbatim>\<open>msg.attachments\<close>; \<open>part_content_id\<close> is set for inline parts only.\<close>

record mail_part =
  part_content :: string
  part_filename :: string
  part_type :: string
  part_disposition :: string
  part_content_id :: "string option"

record message =
  msg_to :: json
  msg_from :: "string option"
  msg_subject :: json
  msg_attachments :: "mail_part list"
  msg_html :: json
  msg_text :: json

text \<open>The body of a response: a JSON value, the stored documents, or the page that the
  framework writes for an error that a route did not catch.\<close>

datatype payload = Json json | Records "email_log list" | ErrorPage js_error

record response =
  status :: nat
  payload :: payload

section \<open>The external services\<close>

record s3_data =
  Body :: "8 word list"
  ContentType :: string

record s3_file =
  content :: "8 word list"
  contentType :: string

text \<open>
  The object store, the mail provider and the document store are outside the repository:
  the environment gives the outcome of each of their calls, which within one request is
  taken to depend on the argument of the call only. \<open>None\<close> is a resolved promise.
\<close>

record env =
  s3_getObject :: "string \<Rightarrow> js_error + s3_data"
  sgMail_send :: "message \<Rightarrow> js_error option"
  EmailLog_create :: "email_doc \<Rightarrow> js_error option"
  EmailLog_find_error :: "js_error option"
  SENDGRID_FROM_EMAIL :: "string option"

text \<open>The calls a request makes to the external services, in the order made.\<close>

datatype call = S3GetObject string | SgMailSend message | EmailLogCreate email_doc

definition getFileFromS3 :: "env \<Rightarrow> string \<Rightarrow> js_error + s3_file" where
  "getFileFromS3 e key =
     (case s3_getObject e key of
        Inl error \<Rightarrow> Inl error
      | Inr data \<Rightarrow> Inr \<lparr>content = Body data, contentType = ContentType data\<rparr>)"

section \<open>String helpers of the runtime\<close>

text \<open>\<^verbatim>\<open>key.split('/').pop()\<close>: the segment after the last separator.\<close>

fun split_on :: "char \<Rightarrow> string \<Rightarrow> string list" where
  "split_on sep [] = [[]]"
| "split_on sep (c # cs) =
     (if c = sep then [] # split_on sep cs
      else (case split_on sep cs of [] \<Rightarrow> [[c]] | w # ws \<Rightarrow> (c # w) # ws))"

definition pop :: "string list \<Rightarrow> string" where
  "pop xs = (if xs = [] then [] else last xs)"

definition base64_alphabet :: string where
  "base64_alphabet = ''ABCDEFGHIJKLMNOPQRSTUVWXYZabcdefghijklmnopqrstuvwxyz0123456789+/''"

definition b64 :: "nat \<Rightarrow> char" where
  "b64 n = base64_alphabet ! n"

text \<open>\<^verbatim>\<open>file.content.toString('base64')\<close>.\<close>

fun base64 :: "8 word list \<Rightarrow> string" where
  "base64 [] = []"
| "base64 [a] =
     [b64 (unat a div 4), b64 (unat a mod 4 * 16), CHR ''='', CHR ''='']"
| "base64 [a, b] =
     [b64 (unat a div 4), b64 (unat a mod 4 * 16 + unat b div 16),
      b64 (unat b mod 16 * 4), CHR ''='']"
| "base64 (a # b # c # rest) =
     [b64 (unat a div 4), b64 (unat a mod 4 * 16 + unat b div 16),
      b64 (unat b mod 16 * 4 + unat c div 64), b64 (unat c mod 64)] @ base64 rest"

text \<open>
  \<^verbatim>\<open>body.replace(/<[^>]*>/g, '')\<close>: scanning from the left, a \<^verbatim>\<open><\<close> that has a
  \<^verbatim>\<open>>\<close> somewhere after it is deleted together with everything up to the first such
  \<^verbatim>\<open>>\<close>; any other character is kept.
\<close>

function strip_tags :: "string \<Rightarrow> string" where
  "strip_tags [] = []"
| "strip_tags (c # cs) =
     (if c = CHR ''<'' \<and> CHR ''>'' \<in> set cs
      then strip_tags (tl (dropWhile (\<lambda>x. x \<noteq> CHR ''>'') cs))
      else c # strip_tags cs)"
  by pat_completeness auto
termination
  by (relation "measure length")
    (simp_all add: less_Suc_eq_le le_diff_conv le_SucI length_dropWhile_le)

section \<open>The HTML renderer\<close>

text \<open>The fixed text of the template literal of \<^verbatim>\<open>generateHTMLEmail\<close> (lines 80 to 132),
  cut at its four interpolations.\<close>

definition tpl_title_open :: string where
  \<open>tpl_title_open =
     ''\<newline>'' @
     ''    <!DOCTYPE html>\<newline>'' @
     ''    <html lang="en">\<newline>'' @
     ''    <head>\<newline>'' @
     ''      <meta charset="UTF-8">\<newline>'' @
     ''      <meta name="viewport" content="width=device-width, initial-scale=1.0">\<newline>'' @
     ''      <title>''\<close>

definition tpl_style_and_header :: string where
  \<open>tpl_style_and_header =
     ''</title>\<newline>'' @
     ''      <style>\<newline>'' @
     ''        body {\<newline>'' @
     ''          font-family: Arial, sans-serif;\<newline>'' @
     ''          line-height: 1.6;\<newline>'' @
     ''          color: #333;\<newline>'' @
     ''          max-width: 600px;\<newline>'' @
     ''          margin: 0 auto;\<newline>'' @
     ''          padding: 20px;\<newline>'' @
     ''        }\<newline>'' @
     ''        .header {\<newline>'' @
     ''          border-bottom: 2px solid #f0f0f0;\<newline>'' @
     ''          padding-bottom: 15px;\<newline>'' @
     ''          margin-bottom: 20px;\<newline>'' @
     ''        }\<newline>'' @
     ''        h1 {\<newline>'' @
     ''          color: #2c3e50;\<newline>'' @
     ''          margin-top: 0;\<newline>'' @
     ''        }\<newline>'' @
     ''        .content {\<newline>'' @
     ''          margin-bottom: 30px;\<newline>'' @
     ''        }\<newline>'' @
     ''        .image-container {\<newline>'' @
     ''          margin: 20px 0;\<newline>'' @
     ''        }\<newline>'' @
     ''        .footer {\<newline>'' @
     ''          border-top: 1px solid #f0f0f0;\<newline>'' @
     ''          padding-top: 15px;\<newline>'' @
     ''          font-size: 12px;\<newline>'' @
     ''          color: #777;\<newline>'' @
     ''        }\<newline>'' @
     ''      </style>\<newline>'' @
     ''    </head>\<newline>'' @
     ''    <body>\<newline>'' @
     ''      <div class="header">\<newline>'' @
     ''        <h1>''\<close>

definition tpl_content_open :: string where
  \<open>tpl_content_open =
     ''</h1>\<newline>'' @
     ''      </div>\<newline>'' @
     ''      <div class="content">\<newline>'' @
     ''        ''\<close>

definition tpl_content_close :: string where
  \<open>tpl_content_close =
     ''\<newline>'' @
     ''      </div>\<newline>'' @
     ''      ''\<close>

definition tpl_footer :: string where
  \<open>tpl_footer =
     ''\<newline>'' @
     ''      <div class="footer">\<newline>'' @
     ''        <p>This email was sent automatically. Please do not reply directly to this message.</p>\<newline>'' @
     ''      </div>\<newline>'' @
     ''    </body>\<newline>'' @
     ''    </html>\<newline>'' @
     ''  ''\<close>

definition image_block :: "string \<Rightarrow> string" where
  \<open>image_block cid =
     ''<div class="image-container"><img src="cid:'' @ cid @
     ''" alt="Embedded Image" style="max-width: 100%;"></div>''\<close>

text \<open>The \<^verbatim>\<open>forEach\<close> that appends one block per content id to \<^verbatim>\<open>imageHtml\<close>.\<close>

fun forEach_cid :: "string list \<Rightarrow> string \<Rightarrow> string" where
  "forEach_cid [] imageHtml = imageHtml"
| "forEach_cid (cid # cids) imageHtml = forEach_cid cids (imageHtml @ image_block cid)"

text \<open>
  The function: the loop, then the template literal, whose interpolations are converted
  from left to right. The first conversion that throws ends the call with its error.
\<close>

definition generateHTMLEmail :: "json \<Rightarrow> json \<Rightarrow> string list \<Rightarrow> js_error + string" where
  "generateHTMLEmail subj bdy embeddedImageCids =
     (let imageHtml = forEach_cid embeddedImageCids []
      in case ToString subj of
           Inl error \<Rightarrow> Inl error
         | Inr title \<Rightarrow>
             (case ToString subj of
                Inl error \<Rightarrow> Inl error
              | Inr heading \<Rightarrow>
                  (case ToString bdy of
                     Inl error \<Rightarrow> Inl error
                   | Inr paragraph \<Rightarrow>
                       Inr (tpl_title_open @ title @ tpl_style_and_header @ heading @
                            tpl_content_open @ paragraph @ tpl_content_close @ imageHtml @
                            tpl_footer))))"

section \<open>POST /send-email\<close>

text \<open>The arrays that the route fills while it composes the message, and the calls made.\<close>

record compose_state =
  attachments :: "mail_part list"
  embeddedImageCids :: "string list"
  embeddedImageLogs :: "embedded_image_log list"
  attachmentLogs :: "attachment_log list"
  calls :: "call list"

definition initial_state :: compose_state where
  "initial_state =
     \<lparr>attachments = [], embeddedImageCids = [], embeddedImageLogs = [],
      attachmentLogs = [], calls = []\<rparr>"

text \<open>
  The loop over \<^verbatim>\<open>embeddedImageKeys\<close> (lines 157 to 181); \<open>i\<close> is the loop index and
  the list holds the keys from index \<open>i\<close> on. A failed fetch throws: the loop ends with
  the error and the calls made so far.
\<close>

fun embedded_images_loop ::
  "env \<Rightarrow> nat \<Rightarrow> string list \<Rightarrow> compose_state \<Rightarrow> js_error \<times> call list + compose_state" where
  "embedded_images_loop e i [] st = Inr st"
| "embedded_images_loop e i (key # keys) st =
     (case getFileFromS3 e key of
        Inl error \<Rightarrow> Inl (error, calls st @ [S3GetObject key])
      | Inr file \<Rightarrow>
          (let filename = pop (split_on CHR ''/'' key);
               cid = ''image-'' @ string_of_nat (i + 1)
           in embedded_images_loop e (i + 1) keys
                (st\<lparr>attachments := attachments st @
                       [\<lparr>part_content = base64 (content file), part_filename = filename,
                         part_type = contentType file, part_disposition = ''inline'',
                         part_content_id = Some cid\<rparr>],
                    embeddedImageCids := embeddedImageCids st @ [cid],
                    embeddedImageLogs := embeddedImageLogs st @
                       [\<lparr>img_cid = cid, img_filename = filename, img_s3Key = key,
                         img_contentType = contentType file,
                         img_size = length (content file)\<rparr>],
                    calls := calls st @ [S3GetObject key]\<rparr>)))"

text \<open>The loop over \<^verbatim>\<open>attachmentKeys\<close> (lines 201 to 218).\<close>

fun attachments_loop ::
  "env \<Rightarrow> string list \<Rightarrow> compose_state \<Rightarrow> js_error \<times> call list + compose_state" where
  "attachments_loop e [] st = Inr st"
| "attachments_loop e (key # keys) st =
     (case getFileFromS3 e key of
        Inl error \<Rightarrow> Inl (error, calls st @ [S3GetObject key])
      | Inr file \<Rightarrow>
          (let filename = pop (split_on CHR ''/'' key)
           in attachments_loop e keys
                (st\<lparr>attachments := attachments st @
                       [\<lparr>part_content = base64 (content file), part_filename = filename,
                         part_type = contentType file, part_disposition = ''attachment'',
                         part_content_id = None\<rparr>],
                    attachmentLogs := attachmentLogs st @
                       [\<lparr>att_filename = filename, att_s3Key = key,
                         att_contentType = contentType file,
                         att_size = length (content file)\<rparr>],
                    calls := calls st @ [S3GetObject key]\<rparr>)))"

text \<open>\<^verbatim>\<open>if (keys && keys.length > 0)\<close>: the guard in front of both loops.\<close>

definition keys_to_fetch :: "string list option \<Rightarrow> string list" where
  "keys_to_fetch keys =
     (case keys of None \<Rightarrow> [] | Some ks \<Rightarrow> if length ks > 0 then ks else [])"

text \<open>The value of \<^verbatim>\<open>useHtmlTemplate\<close> after the destructuring default of line 136.\<close>

definition use_template :: "request_body \<Rightarrow> json" where
  "use_template req = (case useHtmlTemplate req of None \<Rightarrow> JBool True | Some v \<Rightarrow> v)"

text \<open>
  Lines 185 to 197: the pair \<^verbatim>\<open>(msg.html, msg.text)\<close>. With the template, an error
  thrown by the renderer ends the \<^verbatim>\<open>try\<close> block. Without the template,
  \<^verbatim>\<open>body.replace\<close> exists for a string only; on any other value the call throws. The
  variable \<^verbatim>\<open>plainTextContent\<close> is assigned once, on line 186.
\<close>

definition html_and_text ::
  "json \<Rightarrow> json \<Rightarrow> json \<Rightarrow> string list \<Rightarrow> js_error + json \<times> json" where
  "html_and_text useHtml subj bdy cids =
     (let plainTextContent = bdy
      in if truthy (Some useHtml)
         then (case generateHTMLEmail subj bdy cids of
                 Inl error \<Rightarrow> Inl error
               | Inr htmlContent \<Rightarrow> Inr (JStr htmlContent, plainTextContent))
         else (case bdy of
                 JStr s \<Rightarrow> Inr (bdy, JStr (strip_tags s))
               | _ \<Rightarrow> Inl (JsError ''body.replace is not a function'')))"

text \<open>
  The body of the \<^verbatim>\<open>try\<close> block (lines 142 to 235) for validated fields. The result
  is the thrown error or the \<^verbatim>\<open>htmlGenerated\<close> value of the success response, each with
  the calls made.
\<close>

definition send_email_try ::
  "env \<Rightarrow> json \<Rightarrow> json \<Rightarrow> json \<Rightarrow> request_body \<Rightarrow> js_error \<times> call list + json \<times> call list" where
  "send_email_try e to' subj bdy req =
     (let useHtml = use_template req;
          plainTextContent = bdy
      in case embedded_images_loop e 0 (keys_to_fetch (embeddedImageKeys req)) initial_state of
           Inl thrown \<Rightarrow> Inl thrown
         | Inr st1 \<Rightarrow>
             (case html_and_text useHtml subj bdy (embeddedImageCids st1) of
                Inl error \<Rightarrow> Inl (error, calls st1)
              | Inr (html, text) \<Rightarrow>
                  (case attachments_loop e (keys_to_fetch (attachmentKeys req)) st1 of
                     Inl thrown \<Rightarrow> Inl thrown
                   | Inr st2 \<Rightarrow>
                       (let msg = \<lparr>msg_to = to', msg_from = SENDGRID_FROM_EMAIL e,
                                   msg_subject = subj, msg_attachments = attachments st2,
                                   msg_html = html, msg_text = text\<rparr>;
                            sent = calls st2 @ [SgMailSend msg]
                        in case sgMail_send e msg of
                             Some error \<Rightarrow> Inl (error, sent)
                           | None \<Rightarrow>
                               (let doc = \<lparr>doc_to = to', doc_subject = subj,
                                           doc_body = plainTextContent,
                                           doc_htmlBody = msg_html msg,
                                           doc_embeddedImages = embeddedImageLogs st2,
                                           doc_attachments = attachmentLogs st2\<rparr>;
                                    logged = sent @ [EmailLogCreate doc]
                                in case EmailLog_create e doc of
                                     Some error \<Rightarrow> Inl (error, logged)
                                   | None \<Rightarrow> Inr (useHtml, logged))))))"

text \<open>\<^verbatim>\<open>error.response ? error.response.body : error.message\<close>; a key whose value is
  undefined is left out of the JSON response.\<close>

fun error_detail :: "js_error \<Rightarrow> json option" where
  "error_detail (JsError m) = Some (JStr m)"
| "error_detail (JsResponseError m b) = b"

definition failure_response :: "string \<Rightarrow> js_error \<Rightarrow> response" where
  "failure_response m error =
     \<lparr>status = 500,
      payload = Json (JObj ((''message'', JStr m) #
                  (case error_detail error of None \<Rightarrow> [] | Some d \<Rightarrow> [(''error'', d)])))\<rparr>"

text \<open>The route: the response and the calls made to the external services.\<close>

definition missing_fields :: "string \<Rightarrow> response" where
  "missing_fields names =
     \<lparr>status = 400,
      payload = Json (JObj [(''message'', JStr (''Missing required fields: '' @ names))])\<rparr>"

definition send_email :: "env \<Rightarrow> request_body \<Rightarrow> response \<times> call list" where
  "send_email e req =
     (if \<not> truthy (to req) \<or> \<not> truthy (subject req) \<or> \<not> truthy (body req)
      then (missing_fields ''to, subject, body'', [])
      else (case (to req, subject req, body req) of
              (Some to', Some subj, Some bdy) \<Rightarrow>
                (case send_email_try e to' subj bdy req of
                   Inl (error, cs) \<Rightarrow> (failure_response ''Failed to send email'' error, cs)
                 | Inr (useHtml, cs) \<Rightarrow>
                     (\<lparr>status = 200,
                       payload = Json (JObj [(''message'', JStr ''Email sent successfully''),
                                             (''htmlGenerated'', useHtml)])\<rparr>, cs))
            | _ \<Rightarrow> (missing_fields ''to, subject, body'', [])))"

section \<open>POST /preview-email\<close>

text \<open>The loop of lines 255 to 257, with \<open>n\<close> the value of \<^verbatim>\<open>embeddedImageCount || 0\<close>.\<close>

function dummy_cids_loop :: "nat \<Rightarrow> int \<Rightarrow> string list \<Rightarrow> string list" where
  "dummy_cids_loop i n dummyCids =
     (if int i < n
      then dummy_cids_loop (i + 1) n (dummyCids @ [''preview-image-'' @ string_of_nat (i + 1)])
      else dummyCids)"
  by pat_completeness auto
termination
  by (relation "measure (\<lambda>(i, n, dummyCids). nat (n - int i))") auto

declare dummy_cids_loop.simps [simp del]

text \<open>
  The route has no \<^verbatim>\<open>try\<close> block. An error thrown by the renderer leaves the handler,
  and the framework's default error handler answers it with status 500 and an error page.
\<close>

definition uncaught :: "js_error \<Rightarrow> response" where
  "uncaught error = \<lparr>status = 500, payload = ErrorPage error\<rparr>"

definition preview_email :: "request_body \<Rightarrow> response" where
  "preview_email req =
     (if \<not> truthy (subject req) \<or> \<not> truthy (body req)
      then missing_fields ''subject, body''
      else (case (subject req, body req) of
              (Some subj, Some bdy) \<Rightarrow>
                (let dummyCids = dummy_cids_loop 0
                       (case embeddedImageCount req of None \<Rightarrow> 0 | Some n \<Rightarrow> sint n) []
                 in case generateHTMLEmail subj bdy dummyCids of
                      Inl error \<Rightarrow> uncaught error
                    | Inr html \<Rightarrow> \<lparr>status = 200, payload = Json (JObj [(''html'', JStr html)])\<rparr>)
            | _ \<Rightarrow> missing_fields ''subject, body''))"

section \<open>GET /emails\<close>














section \<open>Notions of the specification\<close>


text \<open>The number of positions of a text at which a given string starts.\<close>

fun count_occurrences :: "string \<Rightarrow> string \<Rightarrow> nat" where
  "count_occurrences p [] = (if p = [] then 1 else 0)"
| "count_occurrences p (c # cs) =
     (if prefix p (c # cs) then 1 else 0) + count_occurrences p cs"

text \<open>The content ids \<^verbatim>\<open>image-1\<close> to \<^verbatim>\<open>image-N\<close>, in this order.\<close>

definition image_cids :: "nat \<Rightarrow> string list" where
  "image_cids n = map (\<lambda>k. ''image-'' @ string_of_nat k) [1..<Suc n]"



text \<open>The messages handed to the mail provider and the documents handed to the log
  store during a run, read off its calls.\<close>

fun sent_messages :: "call list \<Rightarrow> message list" where
  "sent_messages [] = []"
| "sent_messages (SgMailSend m # cs) = m # sent_messages cs"
| "sent_messages (c # cs) = sent_messages cs"

fun created_docs :: "call list \<Rightarrow> email_doc list" where
  "created_docs [] = []"
| "created_docs (EmailLogCreate d # cs) = d # created_docs cs"
| "created_docs (c # cs) = created_docs cs"

fun fetched_keys :: "call list \<Rightarrow> string list" where
  "fetched_keys [] = []"
| "fetched_keys (S3GetObject k # cs) = k # fetched_keys cs"
| "fetched_keys (c # cs) = fetched_keys cs"

text \<open>The message and the log document that the route builds once both loops have run
  (lines 148 to 153 and 223 to 230), as functions of the arrays filled so far.\<close>

definition composed_message ::
  "env \<Rightarrow> json \<Rightarrow> json \<Rightarrow> compose_state \<Rightarrow> json \<Rightarrow> json \<Rightarrow> message" where
  "composed_message e to' subj st2 html plain =
     \<lparr>msg_to = to', msg_from = SENDGRID_FROM_EMAIL e, msg_subject = subj,
      msg_attachments = attachments st2, msg_html = html, msg_text = plain\<rparr>"

definition composed_doc :: "json \<Rightarrow> json \<Rightarrow> json \<Rightarrow> compose_state \<Rightarrow> json \<Rightarrow> email_doc" where
  "composed_doc to' subj bdy st2 html =
     \<lparr>doc_to = to', doc_subject = subj, doc_body = bdy, doc_htmlBody = html,
      doc_embeddedImages = embeddedImageLogs st2, doc_attachments = attachmentLogs st2\<rparr>"

section \<open>Concrete inputs\<close>

text \<open>An environment in which one key is missing from the bucket and every other call
  succeeds, and one in which the log store rejects every write.\<close>

definition example_env :: env where
  "example_env =
     \<lparr>s3_getObject = (\<lambda>key. if key = ''missing.png'' then Inl (JsError ''NoSuchKey'')
                              else Inr \<lparr>Body = [137, 80, 78, 71], ContentType = ''image/png''\<rparr>),
      sgMail_send = (\<lambda>msg. None),
      EmailLog_create = (\<lambda>doc. None),
      EmailLog_find_error = None,
      SENDGRID_FROM_EMAIL = Some ''noreply@example.com''\<rparr>"

definition log_down_env :: env where
  "log_down_env = example_env\<lparr>EmailLog_create := (\<lambda>doc. Some (JsError ''write failed''))\<rparr>"

definition example_request :: request_body where
  "example_request =
     \<lparr>to = Some (JStr ''a@b.com''), subject = Some (JStr ''Hi''), body = Some (JStr ''Hello''),
      attachmentKeys = None, embeddedImageKeys = None, useHtmlTemplate = None,
      embeddedImageCount = None\<rparr>"


text \<open>What the example request makes the route build when nothing is fetched; the
  renderer returns a string for it.\<close>

definition example_html :: string where
  "example_html = projr (generateHTMLEmail (JStr ''Hi'') (JStr ''Hello'') [])"

definition example_message :: "env \<Rightarrow> message" where
  "example_message e =
     composed_message e (JStr ''a@b.com'') (JStr ''Hi'') initial_state (JStr example_html)
       (JStr ''Hello'')"

definition example_doc :: email_doc where
  "example_doc =
     composed_doc (JStr ''a@b.com'') (JStr ''Hi'') (JStr ''Hello'') initial_state (JStr example_html)"

text \<open>Variants of the example request: without the template, with inline images, and
  for the preview route.\<close>

definition plain_request :: request_body where
  "plain_request =
     example_request\<lparr>body := Some (JStr ''<b>Hi</b>''), useHtmlTemplate := Some (JBool False)\<rparr>"




definition preview_request :: request_body where
  "preview_request = example_request\<lparr>embeddedImageCount := Some 2\<rparr>"

definition preview_request_cid :: request_body where
  "preview_request_cid = preview_request\<lparr>body := Some (JStr ''see cid:logo'')\<rparr>"

text \<open>A body that is an object with an own key \<^verbatim>\<open>toString\<close>, for both routes, and a
  request whose body repeats the reference to its one inline image.\<close>

definition preview_request_object :: request_body where
  "preview_request_object = preview_request\<lparr>body := Some (JObj [(''toString'', JNum 1)])\<rparr>"


section \<open>The two fetch loops\<close>

lemma embedded_images_loop_Inr:
  "embedded_images_loop e i keys st = Inr st' \<Longrightarrow>
     (\<forall>k \<in> set keys. \<not> isl (getFileFromS3 e k)) \<and>
     calls st' = calls st @ map S3GetObject keys \<and>
     attachmentLogs st' = attachmentLogs st \<and>
     embeddedImageCids st' =
       embeddedImageCids st @ map (\<lambda>k. ''image-'' @ string_of_nat k) [Suc i..<Suc i + length keys] \<and>
     map img_cid (embeddedImageLogs st') =
       map img_cid (embeddedImageLogs st) @ map (\<lambda>k. ''image-'' @ string_of_nat k) [Suc i..<Suc i + length keys] \<and>
     map img_s3Key (embeddedImageLogs st') = map img_s3Key (embeddedImageLogs st) @ keys \<and>
     map part_content_id (attachments st') =
       map part_content_id (attachments st) @ map (\<lambda>k. Some (''image-'' @ string_of_nat k)) [Suc i..<Suc i + length keys]"
proof (induction keys arbitrary: i st)
  case Nil
  then show ?case by simp
next
  case (Cons key keys)
  show ?case
  proof (cases "getFileFromS3 e key")
    case (Inl err)
    with Cons.prems show ?thesis by simp
  next
    case (Inr fl)
    with Cons.prems have loop: "embedded_images_loop e (Suc i) keys
       (st\<lparr>attachments := attachments st @
                       [\<lparr>part_content = base64 (content fl), part_filename = pop (split_on CHR ''/'' key),
                         part_type = contentType fl, part_disposition = ''inline'',
                         part_content_id = Some (''image-'' @ string_of_nat (Suc i))\<rparr>],
                    embeddedImageCids := embeddedImageCids st @ [''image-'' @ string_of_nat (Suc i)],
                    embeddedImageLogs := embeddedImageLogs st @
                       [\<lparr>img_cid = ''image-'' @ string_of_nat (Suc i), img_filename = pop (split_on CHR ''/'' key), img_s3Key = key,
                         img_contentType = contentType fl,
                         img_size = length (content fl)\<rparr>],
                    calls := calls st @ [S3GetObject key]\<rparr>) = Inr st'"
      by (simp add: Let_def)
    have upt: "[Suc i..<Suc i + length (key # keys)] = Suc i # [Suc (Suc i)..<Suc (Suc i) + length keys]"
      using upt_conv_Cons [of "Suc i" "Suc i + length (key # keys)"] by (simp del: upt_Suc)
    from Cons.IH [OF loop] Inr show ?thesis
      unfolding upt by (simp del: upt_Suc)
  qed
qed

lemma embedded_images_loop_Inl:
  "embedded_images_loop e i keys st = Inl (err, cs) \<Longrightarrow>
     \<exists>ks. cs = calls st @ map S3GetObject ks \<and> set ks \<subseteq> set keys"
proof (induction keys arbitrary: i st)
  case Nil
  then show ?case by simp
next
  case (Cons key keys)
  show ?case
  proof (cases "getFileFromS3 e key")
    case (Inl err')
    with Cons.prems have "cs = calls st @ map S3GetObject [key]"
      and "set [key] \<subseteq> set (key # keys)" by simp_all
    then show ?thesis by blast
  next
    case (Inr fl)
    with Cons.prems obtain st1 where loop: "embedded_images_loop e (Suc i) keys st1 = Inl (err, cs)"
      and st1: "calls st1 = calls st @ [S3GetObject key]"
      by (simp add: Let_def)
    from Cons.IH [OF loop] obtain ks where "cs = calls st1 @ map S3GetObject ks"
      and "set ks \<subseteq> set keys" by blast
    with st1 have "cs = calls st @ map S3GetObject (key # ks)"
      and "set (key # ks) \<subseteq> set (key # keys)" by auto
    then show ?thesis by blast
  qed
qed

lemma attachments_loop_Inr:
  "attachments_loop e keys st = Inr st' \<Longrightarrow>
     (\<forall>k \<in> set keys. \<not> isl (getFileFromS3 e k)) \<and>
     calls st' = calls st @ map S3GetObject keys \<and>
     embeddedImageCids st' = embeddedImageCids st \<and>
     embeddedImageLogs st' = embeddedImageLogs st \<and>
     map att_s3Key (attachmentLogs st') = map att_s3Key (attachmentLogs st) @ keys \<and>
     map part_content_id (attachments st') =
       map part_content_id (attachments st) @ replicate (length keys) None"
proof (induction keys arbitrary: st)
  case Nil
  then show ?case by simp
next
  case (Cons key keys)
  show ?case
  proof (cases "getFileFromS3 e key")
    case (Inl err)
    with Cons.prems show ?thesis by simp
  next
    case (Inr fl)
    with Cons.prems obtain st1 where loop: "attachments_loop e keys st1 = Inr st'"
      and st1: "calls st1 = calls st @ [S3GetObject key]"
         "embeddedImageCids st1 = embeddedImageCids st" "embeddedImageLogs st1 = embeddedImageLogs st"
         "map att_s3Key (attachmentLogs st1) = map att_s3Key (attachmentLogs st) @ [key]"
         "map part_content_id (attachments st1) = map part_content_id (attachments st) @ [None]"
      by (simp add: Let_def)
    from Cons.IH [OF loop] Inr st1 show ?thesis
      by (simp add: replicate_append_same)
  qed
qed

lemma attachments_loop_Inl:
  "attachments_loop e keys st = Inl (err, cs) \<Longrightarrow>
     \<exists>ks. cs = calls st @ map S3GetObject ks \<and> set ks \<subseteq> set keys"
proof (induction keys arbitrary: st)
  case Nil
  then show ?case by simp
next
  case (Cons key keys)
  show ?case
  proof (cases "getFileFromS3 e key")
    case (Inl err')
    with Cons.prems have "cs = calls st @ map S3GetObject [key]"
      and "set [key] \<subseteq> set (key # keys)" by simp_all
    then show ?thesis by blast
  next
    case (Inr fl)
    with Cons.prems obtain st1 where loop: "attachments_loop e keys st1 = Inl (err, cs)"
      and st1: "calls st1 = calls st @ [S3GetObject key]"
      by (simp add: Let_def)
    from Cons.IH [OF loop] obtain ks where "cs = calls st1 @ map S3GetObject ks"
      and "set ks \<subseteq> set keys" by blast
    with st1 have "cs = calls st @ map S3GetObject (key # ks)"
      and "set (key # ks) \<subseteq> set (key # keys)" by auto
    then show ?thesis by blast
  qed
qed

section \<open>The shape of a run of the send route\<close>

lemma keys_to_fetch_Some [simp]: "keys_to_fetch (Some ks) = ks"
  by (simp add: keys_to_fetch_def)

lemma keys_to_fetch_None [simp]: "keys_to_fetch None = []"
  by (simp add: keys_to_fetch_def)

lemma calls_initial_state [simp]: "calls initial_state = []"
  by (simp add: initial_state_def)

lemma sent_messages_fetches [simp]: "sent_messages (map S3GetObject ks @ cs) = sent_messages cs"
  by (induction ks) simp_all

lemma created_docs_fetches [simp]: "created_docs (map S3GetObject ks @ cs) = created_docs cs"
  by (induction ks) simp_all

lemma fetched_keys_fetches [simp]: "fetched_keys (map S3GetObject ks @ cs) = ks @ fetched_keys cs"
  by (induction ks) simp_all

lemma fetch_in_calls: "S3GetObject key \<in> set cs \<longleftrightarrow> key \<in> set (fetched_keys cs)"
  by (induction cs rule: fetched_keys.induct) auto

lemma try_fetch_failure:
  assumes key: "key \<in> set (keys_to_fetch (embeddedImageKeys req)) \<union> set (keys_to_fetch (attachmentKeys req))"
    and fails: "isl (getFileFromS3 e key)"
  shows "\<exists>err ks. send_email_try e to' subj bdy req = Inl (err, map S3GetObject ks)"
proof (cases "embedded_images_loop e 0 (keys_to_fetch (embeddedImageKeys req)) initial_state")
  case (Inl thrown)
  obtain err cs where thrown: "thrown = (err, cs)" by (cases thrown)
  from embedded_images_loop_Inl [OF Inl [unfolded thrown]] obtain ks where "cs = map S3GetObject ks"
    by auto
  with Inl thrown have "send_email_try e to' subj bdy req = Inl (err, map S3GetObject ks)"
    by (simp add: send_email_try_def)
  then show ?thesis by blast
next
  case (Inr st1)
  note loop1 = embedded_images_loop_Inr [OF Inr]
  from loop1 have cs1: "calls st1 = map S3GetObject (keys_to_fetch (embeddedImageKeys req))" by simp
  from loop1 key fails have key': "key \<in> set (keys_to_fetch (attachmentKeys req))" by blast
  show ?thesis
  proof (cases "html_and_text (use_template req)
                  subj bdy (embeddedImageCids st1)")
    case (Inl err)
    with Inr cs1 show ?thesis by (auto simp: send_email_try_def)
  next
    case ht: (Inr hts)
    obtain html plain where hts: "hts = (html, plain)" by (cases hts)
    show ?thesis
    proof (cases "attachments_loop e (keys_to_fetch (attachmentKeys req)) st1")
      case (Inl thrown)
      obtain err cs where thrown: "thrown = (err, cs)" by (cases thrown)
      from attachments_loop_Inl [OF Inl [unfolded thrown]] cs1 obtain ks where
        "cs = map S3GetObject (keys_to_fetch (embeddedImageKeys req) @ ks)" by auto
      with Inl thrown Inr ht hts have "send_email_try e to' subj bdy req =
          Inl (err, map S3GetObject (keys_to_fetch (embeddedImageKeys req) @ ks))"
        by (simp add: send_email_try_def)
      then show ?thesis by blast
    next
      case (Inr st2)
      from attachments_loop_Inr [OF Inr] key' fails show ?thesis by blast
    qed
  qed
qed

lemma send_email_try_composed:
  assumes "embedded_images_loop e 0 (keys_to_fetch (embeddedImageKeys req)) initial_state = Inr st1"
    and "html_and_text (use_template req)
            subj bdy (embeddedImageCids st1) = Inr (html, plain)"
    and "attachments_loop e (keys_to_fetch (attachmentKeys req)) st1 = Inr st2"
  shows "send_email_try e to' subj bdy req =
           (case sgMail_send e (composed_message e to' subj st2 html plain) of
              Some error \<Rightarrow> Inl (error, calls st2 @ [SgMailSend (composed_message e to' subj st2 html plain)])
            | None \<Rightarrow>
               (case EmailLog_create e (composed_doc to' subj bdy st2 html) of
                  Some error \<Rightarrow> Inl (error, calls st2 @ [SgMailSend (composed_message e to' subj st2 html plain),
                                          EmailLogCreate (composed_doc to' subj bdy st2 html)])
                | None \<Rightarrow> Inr (use_template req,
                                 calls st2 @ [SgMailSend (composed_message e to' subj st2 html plain),
                                          EmailLogCreate (composed_doc to' subj bdy st2 html)])))"
  using assms
  by (simp add: send_email_try_def Let_def composed_message_def composed_doc_def split: option.splits)

lemma send_email_try_Inl:
  assumes "send_email_try e to' subj bdy req = Inl (err, cs)"
  shows "\<exists>ks. set ks \<subseteq> set (keys_to_fetch (embeddedImageKeys req)) \<union>
                     set (keys_to_fetch (attachmentKeys req)) \<and>
           (cs = map S3GetObject ks \<or>
            (\<exists>msg. cs = map S3GetObject ks @ [SgMailSend msg] \<and> sgMail_send e msg = Some err) \<or>
            (\<exists>msg doc. cs = map S3GetObject ks @ [SgMailSend msg, EmailLogCreate doc] \<and>
                sgMail_send e msg = None \<and> EmailLog_create e doc = Some err))"
proof (cases "embedded_images_loop e 0 (keys_to_fetch (embeddedImageKeys req)) initial_state")
  case (Inl thrown)
  with assms have "embedded_images_loop e 0 (keys_to_fetch (embeddedImageKeys req)) initial_state =
      Inl (err, cs)"
    by (simp add: send_email_try_def)
  from embedded_images_loop_Inl [OF this] obtain ks where "cs = map S3GetObject ks"
    and "set ks \<subseteq> set (keys_to_fetch (embeddedImageKeys req))" by auto
  then show ?thesis by blast
next
  case (Inr st1)
  from embedded_images_loop_Inr [OF Inr]
  have cs1: "calls st1 = map S3GetObject (keys_to_fetch (embeddedImageKeys req))" by simp
  show ?thesis
  proof (cases "html_and_text (use_template req)
                  subj bdy (embeddedImageCids st1)")
    case (Inl err')
    with Inr assms have "cs = calls st1" by (simp add: send_email_try_def)
    with cs1 have "cs = map S3GetObject (keys_to_fetch (embeddedImageKeys req))" by simp
    then show ?thesis by blast
  next
    case ht: (Inr hts)
    obtain html plain where hts: "hts = (html, plain)" by (cases hts)
    show ?thesis
    proof (cases "attachments_loop e (keys_to_fetch (attachmentKeys req)) st1")
      case (Inl thrown)
      with Inr ht hts assms
      have "attachments_loop e (keys_to_fetch (attachmentKeys req)) st1 = Inl (err, cs)"
        by (simp add: send_email_try_def)
      from attachments_loop_Inl [OF this] cs1 obtain ks where
        "cs = map S3GetObject (keys_to_fetch (embeddedImageKeys req) @ ks)"
        and "set ks \<subseteq> set (keys_to_fetch (attachmentKeys req))" by auto
      moreover from this(2) have "set (keys_to_fetch (embeddedImageKeys req) @ ks) \<subseteq>
          set (keys_to_fetch (embeddedImageKeys req)) \<union> set (keys_to_fetch (attachmentKeys req))"
        by auto
      ultimately show ?thesis by blast
    next
      case st2: (Inr st2)
      let ?ks = "keys_to_fetch (embeddedImageKeys req) @ keys_to_fetch (attachmentKeys req)"
      from attachments_loop_Inr [OF st2] cs1 have cs2: "calls st2 = map S3GetObject ?ks"
        by simp
      have ks: "set ?ks \<subseteq> set (keys_to_fetch (embeddedImageKeys req)) \<union>
          set (keys_to_fetch (attachmentKeys req))" by simp
      note composed = send_email_try_composed [OF Inr ht [unfolded hts] st2, of to']
      show ?thesis
      proof (cases "sgMail_send e (composed_message e to' subj st2 html plain)")
        case (Some error)
        with composed assms
        have "cs = calls st2 @ [SgMailSend (composed_message e to' subj st2 html plain)]"
          and "error = err" by simp_all
        with Some cs2 ks show ?thesis by blast
      next
        case None
        show ?thesis
        proof (cases "EmailLog_create e (composed_doc to' subj bdy st2 html)")
          case (Some error)
          with None composed assms
          have "cs = calls st2 @ [SgMailSend (composed_message e to' subj st2 html plain),
                 EmailLogCreate (composed_doc to' subj bdy st2 html)]" and "error = err"
            by simp_all
          with None Some cs2 ks show ?thesis by blast
        next
          case none: None
          with None composed assms show ?thesis by simp
        qed
      qed
    qed
  qed
qed

lemma send_email_try_Inr:
  assumes "send_email_try e to' subj bdy req = Inr (u, cs)"
  shows "\<exists>st1 st2 html plain.
           u = (use_template req) \<and>
           embedded_images_loop e 0 (keys_to_fetch (embeddedImageKeys req)) initial_state = Inr st1 \<and>
           html_and_text u subj bdy (embeddedImageCids st1) = Inr (html, plain) \<and>
           attachments_loop e (keys_to_fetch (attachmentKeys req)) st1 = Inr st2 \<and>
           cs = map S3GetObject (keys_to_fetch (embeddedImageKeys req) @ keys_to_fetch (attachmentKeys req)) @
                [SgMailSend (composed_message e to' subj st2 html plain),
                 EmailLogCreate (composed_doc to' subj bdy st2 html)] \<and>
           sgMail_send e (composed_message e to' subj st2 html plain) = None \<and>
           EmailLog_create e (composed_doc to' subj bdy st2 html) = None"
proof (cases "embedded_images_loop e 0 (keys_to_fetch (embeddedImageKeys req)) initial_state")
  case (Inl thrown)
  with assms show ?thesis by (simp add: send_email_try_def)
next
  case (Inr st1)
  from embedded_images_loop_Inr [OF Inr]
  have cs1: "calls st1 = map S3GetObject (keys_to_fetch (embeddedImageKeys req))" by simp
  show ?thesis
  proof (cases "html_and_text (use_template req)
                  subj bdy (embeddedImageCids st1)")
    case (Inl err')
    with Inr assms show ?thesis by (simp add: send_email_try_def)
  next
    case ht: (Inr hts)
    obtain html plain where hts: "hts = (html, plain)" by (cases hts)
    show ?thesis
    proof (cases "attachments_loop e (keys_to_fetch (attachmentKeys req)) st1")
      case (Inl thrown)
      with Inr ht hts assms show ?thesis by (simp add: send_email_try_def)
    next
      case st2: (Inr st2)
      from attachments_loop_Inr [OF st2] cs1
      have cs2: "calls st2 = map S3GetObject (keys_to_fetch (embeddedImageKeys req) @ keys_to_fetch (attachmentKeys req))"
        by simp
      note composed = send_email_try_composed [OF Inr ht [unfolded hts] st2, of to']
      from composed assms have sent: "sgMail_send e (composed_message e to' subj st2 html plain) = None"
        by (simp split: option.splits)
      with composed assms have logged: "EmailLog_create e (composed_doc to' subj bdy st2 html) = None"
        by (simp split: option.splits)
      from composed assms sent logged cs2 Inr ht hts st2 show ?thesis by simp
    qed
  qed
qed

lemma send_email_try_fetches:
  assumes "send_email_try e to' subj bdy req = r"
    and "S3GetObject key \<in> set (case r of Inl (err, cs) \<Rightarrow> cs | Inr (u, cs) \<Rightarrow> cs)"
  shows "key \<in> set (keys_to_fetch (embeddedImageKeys req)) \<union>
               set (keys_to_fetch (attachmentKeys req))"
proof (cases r)
  case (Inl thrown)
  obtain err cs where thrown: "thrown = (err, cs)" by (cases thrown)
  from send_email_try_Inl [OF assms(1) [unfolded Inl thrown]] obtain ks where
    ks: "set ks \<subseteq> set (keys_to_fetch (embeddedImageKeys req)) \<union>
                   set (keys_to_fetch (attachmentKeys req))"
    and "fetched_keys cs = ks"
    by (auto simp: fetched_keys_fetches [of _ "[]", simplified])
  with assms(2) Inl thrown show ?thesis by (auto simp: fetch_in_calls)
next
  case (Inr ok)
  obtain u cs where ok: "ok = (u, cs)" by (cases ok)
  from send_email_try_Inr [OF assms(1) [unfolded Inr ok]]
  have "fetched_keys cs =
      keys_to_fetch (embeddedImageKeys req) @ keys_to_fetch (attachmentKeys req)"
    by auto
  with assms(2) Inr ok show ?thesis by (auto simp: fetch_in_calls)
qed

section \<open>Validation of the required fields\<close>

lemma status_missing_fields [simp]: "status (missing_fields names) = 400"
  by (simp add: missing_fields_def)

lemma status_failure_response [simp]: "status (failure_response m err) = 500"
  by (simp add: failure_response_def)

lemma truthy_SomeE: "truthy v \<Longrightarrow> \<exists>x. v = Some x"
  by (cases v) simp_all

lemma send_email_invalid:
  "\<not> truthy (to req) \<or> \<not> truthy (subject req) \<or> \<not> truthy (body req) \<Longrightarrow>
     send_email e req = (missing_fields ''to, subject, body'', [])"
  by (simp add: send_email_def)

lemma send_email_valid:
  "truthy (to req) \<Longrightarrow> truthy (subject req) \<Longrightarrow> truthy (body req) \<Longrightarrow>
     \<exists>to' subj bdy. to req = Some to' \<and> subject req = Some subj \<and> body req = Some bdy \<and>
       send_email e req =
         (case send_email_try e to' subj bdy req of
            Inl (error, cs) \<Rightarrow> (failure_response ''Failed to send email'' error, cs)
          | Inr (useHtml, cs) \<Rightarrow>
              (\<lparr>status = 200,
                payload = Json (JObj [(''message'', JStr ''Email sent successfully''),
                                      (''htmlGenerated'', useHtml)])\<rparr>, cs))"
  by (auto simp: send_email_def dest!: truthy_SomeE)

lemma send_email_runs:
  assumes "snd (send_email e req) \<noteq> [] \<or> status (fst (send_email e req)) \<noteq> 400"
  shows "truthy (to req) \<and> truthy (subject req) \<and> truthy (body req)"
proof (rule ccontr)
  assume "\<not> ?thesis"
  then have "\<not> truthy (to req) \<or> \<not> truthy (subject req) \<or> \<not> truthy (body req)"
    by blast
  from send_email_invalid [OF this] assms show False by simp
qed

text \<open>
  Claim C7. A request to the send route in which \<^verbatim>\<open>to\<close>, \<^verbatim>\<open>subject\<close> or \<^verbatim>\<open>body\<close> is
  absent is answered with status 400, and the route makes no call to the object store,
  the mail provider or the log store.
\<close>

theorem send_email_missing_field:
  assumes "to req = None \<or> subject req = None \<or> body req = None"
  shows "status (fst (send_email e req)) = 400 \<and> snd (send_email e req) = []"
  using assms by (auto simp: send_email_def)

theorem send_email_missing_field_witness:
  "subject (example_request\<lparr>subject := None\<rparr>) = None \<and>
   status (fst (send_email example_env (example_request\<lparr>subject := None\<rparr>))) = 400 \<and>
   snd (send_email example_env (example_request\<lparr>subject := None\<rparr>)) = []"
  using send_email_missing_field [of "example_request\<lparr>subject := None\<rparr>" example_env]
  by simp

text \<open>
  Claim C10. A required field that is present but is the empty string, or another falsy
  JSON value (\<^verbatim>\<open>null\<close>, \<^verbatim>\<open>false\<close>, \<^verbatim>\<open>0\<close>), counts as missing: the send route answers
  400 with the missing-fields message and makes no call, and the preview route answers 400
  with its missing-fields message instead of a document.
\<close>

theorem falsy_field_is_missing:
  assumes "v \<in> {JStr [], JNull, JBool False, JNum 0}"
  shows "(to req = Some v \<or> subject req = Some v \<or> body req = Some v \<longrightarrow>
            send_email e req = (missing_fields ''to, subject, body'', []) \<and>
            status (fst (send_email e req)) = 400) \<and>
         (subject req = Some v \<or> body req = Some v \<longrightarrow>
            preview_email req = missing_fields ''subject, body'' \<and>
            status (preview_email req) = 400)"
  using assms by (auto simp: send_email_def preview_email_def)

theorem falsy_field_is_missing_witness:
  "JStr [] \<in> {JStr [], JNull, JBool False, JNum 0} \<and>
   body (example_request\<lparr>body := Some (JStr [])\<rparr>) = Some (JStr []) \<and>
   send_email example_env (example_request\<lparr>body := Some (JStr [])\<rparr>) =
     (missing_fields ''to, subject, body'', []) \<and>
   status (fst (send_email example_env (example_request\<lparr>body := Some (JStr [])\<rparr>))) = 400 \<and>
   preview_email (example_request\<lparr>body := Some (JStr [])\<rparr>) = missing_fields ''subject, body'' \<and>
   status (preview_email (example_request\<lparr>body := Some (JStr [])\<rparr>)) = 400"
  using falsy_field_is_missing [of "JStr []" "example_request\<lparr>body := Some (JStr [])\<rparr>" example_env]
  by simp

section \<open>Failures of the external services\<close>

lemma send_email_fetches:
  assumes "S3GetObject key \<in> set (snd (send_email e req))"
  shows "truthy (to req) \<and> truthy (subject req) \<and> truthy (body req) \<and>
         key \<in> set (keys_to_fetch (embeddedImageKeys req)) \<union>
               set (keys_to_fetch (attachmentKeys req))"
proof -
  from assms have "snd (send_email e req) \<noteq> []" by auto
  then have run: "truthy (to req) \<and> truthy (subject req) \<and> truthy (body req)"
    using send_email_runs [of e req] by blast
  with send_email_valid [of req e] obtain to' subj bdy where
    "send_email e req =
       (case send_email_try e to' subj bdy req of
          Inl (error, cs) \<Rightarrow> (failure_response ''Failed to send email'' error, cs)
        | Inr (useHtml, cs) \<Rightarrow>
            (\<lparr>status = 200,
              payload = Json (JObj [(''message'', JStr ''Email sent successfully''),
                                    (''htmlGenerated'', useHtml)])\<rparr>, cs))"
    by blast
  with assms have "S3GetObject key \<in> set (case send_email_try e to' subj bdy req of
      Inl (err, cs) \<Rightarrow> cs | Inr (u, cs) \<Rightarrow> cs)"
    by (simp split: sum.splits prod.splits)
  from send_email_try_fetches [OF refl this] run show ?thesis by simp
qed

text \<open>
  Claim C5. When the fetch of a key of \<^verbatim>\<open>embeddedImageKeys\<close> or \<^verbatim>\<open>attachmentKeys\<close>
  fails, the send route answers with status 500 and calls neither the mail provider nor
  the log store. The key is one that the route did fetch, or any key of a request that
  passed validation.
\<close>

theorem fetch_failure_aborts:
  assumes fails: "isl (getFileFromS3 e key)"
    and key: "S3GetObject key \<in> set (snd (send_email e req)) \<or>
              truthy (to req) \<and> truthy (subject req) \<and> truthy (body req) \<and>
              ((\<exists>ks. embeddedImageKeys req = Some ks \<and> key \<in> set ks) \<or>
               (\<exists>ks. attachmentKeys req = Some ks \<and> key \<in> set ks))"
  shows "status (fst (send_email e req)) = 500 \<and>
         sent_messages (snd (send_email e req)) = [] \<and>
         created_docs (snd (send_email e req)) = []"
proof -
  from key send_email_fetches [of key e req]
  have valid: "truthy (to req)" "truthy (subject req)" "truthy (body req)"
    and requested: "key \<in> set (keys_to_fetch (embeddedImageKeys req)) \<union>
                      set (keys_to_fetch (attachmentKeys req))"
    by auto
  from valid obtain to' subj bdy where
    fields: "to req = Some to'" "subject req = Some subj" "body req = Some bdy"
    by (blast dest: truthy_SomeE)
  from try_fetch_failure [OF requested fails] obtain err ks where
    "send_email_try e to' subj bdy req = Inl (err, map S3GetObject ks)" by blast
  with valid fields have "send_email e req =
      (failure_response ''Failed to send email'' err, map S3GetObject ks)"
    by (simp add: send_email_def)
  then show ?thesis
    using sent_messages_fetches [of ks "[]"] created_docs_fetches [of ks "[]"] by simp
qed

theorem fetch_failure_aborts_witness:
  "isl (getFileFromS3 example_env ''missing.png'') \<and>
   S3GetObject ''missing.png'' \<in> set (snd (send_email example_env
     (example_request\<lparr>attachmentKeys := Some [''a/report.pdf'', ''missing.png'']\<rparr>))) \<and>
   status (fst (send_email example_env
     (example_request\<lparr>attachmentKeys := Some [''a/report.pdf'', ''missing.png'']\<rparr>))) = 500 \<and>
   sent_messages (snd (send_email example_env
     (example_request\<lparr>attachmentKeys := Some [''a/report.pdf'', ''missing.png'']\<rparr>))) = [] \<and>
   created_docs (snd (send_email example_env
     (example_request\<lparr>attachmentKeys := Some [''a/report.pdf'', ''missing.png'']\<rparr>))) = []"
proof -
  have fails: "isl (getFileFromS3 example_env ''missing.png'')"
    by (simp add: getFileFromS3_def example_env_def)
  have fetched: "S3GetObject ''missing.png'' \<in> set (snd (send_email example_env
     (example_request\<lparr>attachmentKeys := Some [''a/report.pdf'', ''missing.png'']\<rparr>)))"
    by (simp add: send_email_def send_email_try_def use_template_def Let_def example_request_def example_env_def
        html_and_text_def generateHTMLEmail_def initial_state_def getFileFromS3_def)
  from fetch_failure_aborts [OF fails disjI1 [OF fetched]] fails fetched show ?thesis by blast
qed

lemma example_run_log_down:
  "send_email log_down_env example_request =
     (failure_response ''Failed to send email'' (JsError ''write failed''),
      [SgMailSend (example_message log_down_env), EmailLogCreate example_doc])"
  by (simp add: send_email_def send_email_try_def use_template_def Let_def example_request_def log_down_env_def
      example_env_def html_and_text_def generateHTMLEmail_def composed_message_def composed_doc_def initial_state_def
      example_message_def example_doc_def example_html_def)

text \<open>
  Claim C6. When a request's call to the mail provider succeeds and its write to the log
  store then fails, the response is the 500 failure response carrying the log store's
  error, although the message has been sent.
\<close>

theorem log_failure_after_delivery:
  assumes "SgMailSend msg \<in> set (snd (send_email e req))" and "sgMail_send e msg = None"
    and "EmailLogCreate doc \<in> set (snd (send_email e req))"
    and "EmailLog_create e doc = Some error"
  shows "fst (send_email e req) = failure_response ''Failed to send email'' error \<and>
         status (fst (send_email e req)) = 500"
proof -
  from assms(3) have "snd (send_email e req) \<noteq> []" by auto
  then have run: "truthy (to req) \<and> truthy (subject req) \<and> truthy (body req)"
    using send_email_runs [of e req] by blast
  then obtain to' subj bdy where
    fields: "to req = Some to'" "subject req = Some subj" "body req = Some bdy"
    by (blast dest: truthy_SomeE)
  show ?thesis
  proof (cases "send_email_try e to' subj bdy req")
    case (Inl thrown)
    obtain err cs where thrown: "thrown = (err, cs)" by (cases thrown)
    with Inl run fields have result:
      "send_email e req = (failure_response ''Failed to send email'' err, cs)"
      by (simp add: send_email_def)
    with assms(3) have "EmailLogCreate doc \<in> set cs" by simp
    with send_email_try_Inl [OF Inl [unfolded thrown]] have "EmailLog_create e doc = Some err"
      by auto
    with assms(4) result show ?thesis by simp
  next
    case (Inr ok)
    obtain u cs where "ok = (u, cs)" by (cases ok)
    with Inr run fields have "snd (send_email e req) = cs"
      and shape: "send_email_try e to' subj bdy req = Inr (u, cs)"
      by (simp_all add: send_email_def)
    with assms(3) have "EmailLogCreate doc \<in> set cs" by simp
    with send_email_try_Inr [OF shape] have "EmailLog_create e doc = None" by auto
    with assms(4) show ?thesis by simp
  qed
qed

theorem log_failure_after_delivery_witness:
  "SgMailSend (example_message log_down_env) \<in> set (snd (send_email log_down_env example_request)) \<and>
   sgMail_send log_down_env (example_message log_down_env) = None \<and>
   EmailLogCreate example_doc \<in> set (snd (send_email log_down_env example_request)) \<and>
   EmailLog_create log_down_env example_doc = Some (JsError ''write failed'') \<and>
   fst (send_email log_down_env example_request) =
     failure_response ''Failed to send email'' (JsError ''write failed'') \<and>
   status (fst (send_email log_down_env example_request)) = 500"
proof -
  have sent: "SgMailSend (example_message log_down_env)
                \<in> set (snd (send_email log_down_env example_request))"
    by (simp add: example_run_log_down)
  have delivered: "sgMail_send log_down_env (example_message log_down_env) = None"
    by (simp add: log_down_env_def example_env_def)
  have logged: "EmailLogCreate example_doc \<in> set (snd (send_email log_down_env example_request))"
    by (simp add: example_run_log_down)
  have failed: "EmailLog_create log_down_env example_doc = Some (JsError ''write failed'')"
    by (simp add: log_down_env_def example_env_def)
  from log_failure_after_delivery [OF sent delivered logged failed] sent delivered logged failed
  show ?thesis by blast
qed

section \<open>Occurrences of a string in a text\<close>

lemma prefix_separator:
  assumes "x \<notin> set p"
  shows "prefix p (u @ x # b) \<longleftrightarrow> prefix p u"
proof
  assume "prefix p (u @ x # b)"
  then consider "prefix p u" | w where "p = u @ w" "prefix w (x # b)"
    by (auto simp: prefix_append)
  then show "prefix p u"
  proof cases
    case 1
    then show ?thesis .
  next
    case 2
    with assms have "w = []" by (cases w) auto
    with 2 show ?thesis by simp
  qed
next
  assume "prefix p u"
  then show "prefix p (u @ x # b)" by (rule prefix_prefix)
qed

lemma count_occurrences_separator:
  assumes "x \<notin> set p" and "p \<noteq> []"
  shows "count_occurrences p (a @ x # b) = count_occurrences p a + count_occurrences p b"
proof (induction a)
  case Nil
  from assms have "\<not> prefix p (x # b)" by (cases p) auto
  with assms show ?case by simp
next
  case (Cons y a)
  from assms(1) have "prefix p (y # a @ x # b) \<longleftrightarrow> prefix p (y # a)"
    using prefix_separator [of x p "y # a" b] by simp
  with Cons show ?case by simp
qed

lemma count_occurrences_Nil [simp]: "p \<noteq> [] \<Longrightarrow> count_occurrences p [] = 0"
  by simp

lemma count_occurrences_after:
  assumes "a \<noteq> []" and "last a \<notin> set p" and "p \<noteq> []"
  shows "count_occurrences p (a @ b) = count_occurrences p a + count_occurrences p b"
proof -
  from assms(1) obtain a' x where a: "a = a' @ [x]" by (cases a rule: rev_cases) auto
  with assms(2) have x: "x \<notin> set p" by simp
  have "count_occurrences p (a' @ x # b) = count_occurrences p a' + count_occurrences p b"
    using x assms(3) by (rule count_occurrences_separator)
  moreover have "count_occurrences p (a' @ x # []) = count_occurrences p a' + count_occurrences p []"
    using x assms(3) by (rule count_occurrences_separator)
  ultimately show ?thesis using a assms(3) by simp
qed

lemma count_occurrences_before:
  assumes "b \<noteq> []" and "hd b \<notin> set p" and "p \<noteq> []"
  shows "count_occurrences p (a @ b) = count_occurrences p a + count_occurrences p b"
proof -
  from assms(1) obtain x b' where b: "b = x # b'" by (cases b) auto
  with assms have "count_occurrences p (a @ x # b') = count_occurrences p a + count_occurrences p b'"
    by (simp add: count_occurrences_separator)
  moreover from assms b have "count_occurrences p ([] @ x # b') = count_occurrences p [] + count_occurrences p b'"
    by (subst count_occurrences_separator) simp_all
  ultimately show ?thesis using b assms by simp
qed


lemma count_occurrences_zero_append:
  assumes "a \<noteq> []" and "last a \<notin> set p" and "p \<noteq> []"
    and "count_occurrences p a = 0" and "count_occurrences p b = 0"
  shows "count_occurrences p (a @ b) = 0"
  using count_occurrences_after [OF assms(1-3), of b] assms(4,5) by simp

section \<open>The rendered document\<close>

lemma forEach_cid_concat: "forEach_cid cids imageHtml = imageHtml @ concat (map image_block cids)"
  by (induction cids arbitrary: imageHtml) simp_all

lemma collect_Inl: "collect rs = Inl err \<Longrightarrow> Inl err \<in> set rs"
  by (induction rs rule: collect.induct) (auto split: sum.splits)

text \<open>Every conversion that throws, throws the same error.\<close>

lemma ToString_error:
  "ToString v = Inl err \<Longrightarrow> err = JsError ''Cannot convert object to primitive value''"
proof (induction v rule: ToString.induct)
  case (5 xs)
  from "5.prems" have "collect (map (\<lambda>x. if x = JNull then Inr [] else ToString x) xs) = Inl err"
    by (simp split: sum.splits)
  from collect_Inl [OF this] obtain x where "x \<in> set xs" "x \<noteq> JNull" "ToString x = Inl err"
    by (auto split: if_splits)
  with "5.IH" show ?case by blast
qed (simp_all split: if_splits)

lemma generateHTMLEmail_document:
  assumes "ToString subj = Inr s" and "ToString bdy = Inr b"
  shows "generateHTMLEmail subj bdy cids =
     Inr (tpl_title_open @ s @ tpl_style_and_header @ s @
          tpl_content_open @ b @ tpl_content_close @
          concat (map image_block cids) @ tpl_footer)"
  using assms by (simp add: generateHTMLEmail_def forEach_cid_concat)

lemma generateHTMLEmail_throws:
  assumes "isl (ToString subj) \<or> isl (ToString bdy)"
  shows "generateHTMLEmail subj bdy cids = Inl (JsError ''Cannot convert object to primitive value'')"
proof (cases "ToString subj")
  case (Inl err)
  with ToString_error [OF Inl] show ?thesis by (simp add: generateHTMLEmail_def)
next
  case (Inr s)
  with assms obtain err where err: "ToString bdy = Inl err" by (cases "ToString bdy") auto
  with ToString_error [OF err] Inr show ?thesis by (simp add: generateHTMLEmail_def)
qed


text \<open>
  Claim C9. The renderer is a function of its three arguments alone: it reads nothing else
  and calls no service, so two calls with equal subject, body and content ids end in the
  same way. For a subject and a body that are strings, as the renderer's contract has
  them, both calls return the same string: the fixed template text around the subject,
  the body and one image block per content id. For other values the same holds with the
  strings they are converted to, unless the subject or the body cannot be converted: then
  both calls throw the \<^verbatim>\<open>TypeError\<close> of the conversion.
\<close>

theorem generateHTMLEmail_deterministic:
  assumes "subj1 = subj2" and "bdy1 = bdy2" and "cids1 = cids2"
  shows "generateHTMLEmail subj1 bdy1 cids1 = generateHTMLEmail subj2 bdy2 cids2 \<and>
         (\<forall>s b. subj1 = JStr s \<and> bdy1 = JStr b \<longrightarrow>
            generateHTMLEmail subj2 bdy2 cids2 =
              Inr (tpl_title_open @ s @ tpl_style_and_header @ s @ tpl_content_open @ b @
                   tpl_content_close @ concat (map image_block cids1) @ tpl_footer)) \<and>
         generateHTMLEmail subj1 bdy1 cids1 =
           (if isl (ToString subj1) \<or> isl (ToString bdy1)
            then Inl (JsError ''Cannot convert object to primitive value'')
            else Inr (tpl_title_open @ projr (ToString subj1) @ tpl_style_and_header @
                      projr (ToString subj1) @ tpl_content_open @ projr (ToString bdy1) @
                      tpl_content_close @ concat (map image_block cids1) @ tpl_footer))"
proof (intro conjI allI impI)
  from assms show "generateHTMLEmail subj1 bdy1 cids1 = generateHTMLEmail subj2 bdy2 cids2"
    by simp
next
  fix s b
  assume "subj1 = JStr s \<and> bdy1 = JStr b"
  with assms have "ToString subj2 = Inr s" and "ToString bdy2 = Inr b" by auto
  from generateHTMLEmail_document [OF this] assms
  show "generateHTMLEmail subj2 bdy2 cids2 =
      Inr (tpl_title_open @ s @ tpl_style_and_header @ s @ tpl_content_open @ b @
           tpl_content_close @ concat (map image_block cids1) @ tpl_footer)"
    by simp
next
  show "generateHTMLEmail subj1 bdy1 cids1 =
      (if isl (ToString subj1) \<or> isl (ToString bdy1)
       then Inl (JsError ''Cannot convert object to primitive value'')
       else Inr (tpl_title_open @ projr (ToString subj1) @ tpl_style_and_header @
                 projr (ToString subj1) @ tpl_content_open @ projr (ToString bdy1) @
                 tpl_content_close @ concat (map image_block cids1) @ tpl_footer))"
  proof (cases "isl (ToString subj1) \<or> isl (ToString bdy1)")
    case True
    from generateHTMLEmail_throws [OF this] True show ?thesis by simp
  next
    case False
    then have "ToString subj1 = Inr (projr (ToString subj1))"
      and "ToString bdy1 = Inr (projr (ToString bdy1))" by simp_all
    from generateHTMLEmail_document [OF this] False show ?thesis by simp
  qed
qed

theorem generateHTMLEmail_deterministic_witness:
  "JStr ''Hi'' = JStr ''Hi'' \<and> JStr ''Hello'' = JStr ''Hello'' \<and> [''image-1''] = [''image-1''] \<and>
   generateHTMLEmail (JStr ''Hi'') (JStr ''Hello'') [''image-1''] =
     generateHTMLEmail (JStr ''Hi'') (JStr ''Hello'') [''image-1''] \<and>
   generateHTMLEmail (JStr ''Hi'') (JStr ''Hello'') [''image-1''] =
     Inr (tpl_title_open @ ''Hi'' @ tpl_style_and_header @ ''Hi'' @ tpl_content_open @ ''Hello'' @
          tpl_content_close @ image_block ''image-1'' @ tpl_footer) \<and>
   JObj [(''toString'', JNum 1)] = JObj [(''toString'', JNum 1)] \<and>
   generateHTMLEmail (JStr ''Hi'') (JObj [(''toString'', JNum 1)]) [''image-1''] =
     Inl (JsError ''Cannot convert object to primitive value'')"
  using generateHTMLEmail_deterministic [of "JStr ''Hi''" "JStr ''Hi''" "JStr ''Hello''" "JStr ''Hello''"
      "[''image-1'']" "[''image-1'']"]
    generateHTMLEmail_deterministic [of "JStr ''Hi''" "JStr ''Hi''" "JObj [(''toString'', JNum 1)]"
      "JObj [(''toString'', JNum 1)]" "[''image-1'']" "[''image-1'']"]
  by simp

lemma last_append_is: "b \<noteq> [] \<Longrightarrow> last b = c \<Longrightarrow> last (a @ b) = c"
  by simp

lemma tpl_nonempty [simp]:
  "tpl_title_open \<noteq> []" "tpl_style_and_header \<noteq> []" "tpl_content_open \<noteq> []"
  "tpl_content_close \<noteq> []" "tpl_footer \<noteq> []"
  by (simp_all add: tpl_title_open_def tpl_style_and_header_def tpl_content_open_def
      tpl_content_close_def tpl_footer_def)

lemma tpl_hd [simp]:
  "hd tpl_style_and_header = CHR ''<''" "hd tpl_content_open = CHR ''<''"
  "hd tpl_content_close = CHR ''\<newline>''" "hd tpl_footer = CHR ''\<newline>''"
  by (simp_all add: tpl_style_and_header_def tpl_content_open_def
      tpl_content_close_def tpl_footer_def)

lemma last_tpl_title_open [simp]: "last tpl_title_open = CHR ''>''"
  unfolding tpl_title_open_def by (intro last_append_is) simp_all

lemma last_tpl_style_and_header [simp]: "last tpl_style_and_header = CHR ''>''"
  unfolding tpl_style_and_header_def by (intro last_append_is) simp_all

lemma last_tpl_content_open [simp]: "last tpl_content_open = CHR '' ''"
  unfolding tpl_content_open_def by (intro last_append_is) simp_all

lemma last_tpl_content_close [simp]: "last tpl_content_close = CHR '' ''"
  unfolding tpl_content_close_def by (intro last_append_is) simp_all

text \<open>Every line of the template ends in a newline, which is no character of \<^verbatim>\<open>cid:\<close>, so
  the occurrences are counted line by line.\<close>

lemma no_cid_tpl_title_open [simp]: "count_occurrences ''cid:'' tpl_title_open = 0"
  unfolding tpl_title_open_def by (intro count_occurrences_zero_append) simp_all

lemma no_cid_tpl_style_and_header [simp]: "count_occurrences ''cid:'' tpl_style_and_header = 0"
  unfolding tpl_style_and_header_def by (intro count_occurrences_zero_append) simp_all

lemma no_cid_tpl_content_open [simp]: "count_occurrences ''cid:'' tpl_content_open = 0"
  unfolding tpl_content_open_def by (intro count_occurrences_zero_append) simp_all

lemma no_cid_tpl_content_close [simp]: "count_occurrences ''cid:'' tpl_content_close = 0"
  unfolding tpl_content_close_def by (intro count_occurrences_zero_append) simp_all

lemma no_cid_tpl_footer [simp]: "count_occurrences ''cid:'' tpl_footer = 0"
  unfolding tpl_footer_def by (intro count_occurrences_zero_append) simp_all

lemma image_block_nonempty [simp]: "image_block cid \<noteq> []"
  by (simp add: image_block_def)

lemma hd_image_block [simp]: "hd (image_block cid) = CHR ''<''"
  by (simp add: image_block_def)

lemma last_image_block [simp]: "last (image_block cid) = CHR ''>''"
  by (simp add: image_block_def)

lemma count_cid_image_block:
  "count_occurrences ''cid:'' (image_block cid) = 1 + count_occurrences ''cid:'' cid"
proof -
  have "count_occurrences ''cid:'' (image_block cid) =
        count_occurrences ''cid:'' (cid @ ''\" alt=\"Embedded Image\" style=\"max-width: 100%;\"></div>'') + 1"
    by (simp add: image_block_def)
  also have "count_occurrences ''cid:'' (cid @ ''\" alt=\"Embedded Image\" style=\"max-width: 100%;\"></div>'') =
       count_occurrences ''cid:'' cid + count_occurrences ''cid:'' ''\" alt=\"Embedded Image\" style=\"max-width: 100%;\"></div>''"
    by (rule count_occurrences_before) simp_all
  finally show ?thesis by simp
qed

lemma count_cid_image_blocks:
  "count_occurrences ''cid:'' (concat (map image_block cids)) =
     length cids + sum_list (map (count_occurrences ''cid:'') cids)"
proof (induction cids)
  case Nil
  show ?case by simp
next
  case (Cons cid cids)
  have "count_occurrences ''cid:'' (image_block cid @ concat (map image_block cids)) =
        count_occurrences ''cid:'' (image_block cid) + count_occurrences ''cid:'' (concat (map image_block cids))"
    by (rule count_occurrences_after) simp_all
  with Cons show ?case by (simp add: count_cid_image_block)
qed

lemma count_occurrences_prefix_le:
  "prefix q p \<Longrightarrow> count_occurrences p s \<le> count_occurrences q s"
proof (induction s)
  case Nil
  then show ?case by auto
next
  case (Cons c s)
  from Cons.prems have "prefix p (c # s) \<Longrightarrow> prefix q (c # s)" by (rule prefix_order.trans)
  with Cons show ?case by auto
qed

lemma no_reference_in_template:
  assumes "prefix ''cid:'' p"
  shows "count_occurrences p tpl_title_open = 0" "count_occurrences p tpl_style_and_header = 0"
    "count_occurrences p tpl_content_open = 0" "count_occurrences p tpl_content_close = 0"
    "count_occurrences p tpl_footer = 0"
  using count_occurrences_prefix_le [OF assms, of tpl_title_open]
    count_occurrences_prefix_le [OF assms, of tpl_style_and_header]
    count_occurrences_prefix_le [OF assms, of tpl_content_open]
    count_occurrences_prefix_le [OF assms, of tpl_content_close]
    count_occurrences_prefix_le [OF assms, of tpl_footer]
  by simp_all

text \<open>The occurrences of a reference in a rendered document are those of the subject,
  twice, of the body and of the image section: the template text has none and ends each
  piece with a character that no reference contains.\<close>

lemma count_reference_document:
  assumes ref: "prefix ''cid:'' p"
    and chars: "CHR ''<'' \<notin> set p" "CHR ''>'' \<notin> set p" "CHR '' '' \<notin> set p" "CHR ''\<newline>'' \<notin> set p"
  shows "count_occurrences p
           (tpl_title_open @ s @ tpl_style_and_header @ s @ tpl_content_open @ b @
            tpl_content_close @ images @ tpl_footer) =
         2 * count_occurrences p s + count_occurrences p b + count_occurrences p images"
proof -
  let ?c = "count_occurrences p"
  from ref have p: "p \<noteq> []" by auto
  note tpl = no_reference_in_template [OF ref]
  have "?c (tpl_title_open @ s @ tpl_style_and_header @ s @ tpl_content_open @ b @
            tpl_content_close @ images @ tpl_footer) =
        ?c tpl_title_open + ?c (s @ tpl_style_and_header @ s @
          tpl_content_open @ b @ tpl_content_close @ images @ tpl_footer)"
    using p chars by (intro count_occurrences_after) simp_all
  also have "?c (s @ tpl_style_and_header @ s @
          tpl_content_open @ b @ tpl_content_close @ images @ tpl_footer) =
       ?c s + ?c (tpl_style_and_header @ s @
          tpl_content_open @ b @ tpl_content_close @ images @ tpl_footer)"
    using p chars by (intro count_occurrences_before) simp_all
  also have "?c (tpl_style_and_header @ s @
          tpl_content_open @ b @ tpl_content_close @ images @ tpl_footer) =
       ?c tpl_style_and_header + ?c (s @
          tpl_content_open @ b @ tpl_content_close @ images @ tpl_footer)"
    using p chars by (intro count_occurrences_after) simp_all
  also have "?c (s @ tpl_content_open @ b @ tpl_content_close @ images @ tpl_footer) =
       ?c s + ?c (tpl_content_open @ b @ tpl_content_close @ images @ tpl_footer)"
    using p chars by (intro count_occurrences_before) simp_all
  also have "?c (tpl_content_open @ b @ tpl_content_close @ images @ tpl_footer) =
       ?c tpl_content_open + ?c (b @ tpl_content_close @ images @ tpl_footer)"
    using p chars by (intro count_occurrences_after) simp_all
  also have "?c (b @ tpl_content_close @ images @ tpl_footer) =
       ?c b + ?c (tpl_content_close @ images @ tpl_footer)"
    using p chars by (intro count_occurrences_before) simp_all
  also have "?c (tpl_content_close @ images @ tpl_footer) =
       ?c tpl_content_close + ?c (images @ tpl_footer)"
    using p chars by (intro count_occurrences_after) simp_all
  also have "?c (images @ tpl_footer) = ?c images + ?c tpl_footer"
    using p chars by (intro count_occurrences_before) simp_all
  finally show ?thesis by (simp add: tpl)
qed

lemma count_cid_document:
  "count_occurrences ''cid:''
     (tpl_title_open @ s @ tpl_style_and_header @ s @ tpl_content_open @ b @
      tpl_content_close @ concat (map image_block cids) @ tpl_footer) =
     2 * count_occurrences ''cid:'' s + count_occurrences ''cid:'' b +
     length cids + sum_list (map (count_occurrences ''cid:'') cids)"
  by (subst count_reference_document) (simp_all add: count_cid_image_blocks)

lemma sublist_cid_image_block: "sublist (''cid:'' @ cid) (image_block cid)"
proof -
  have "image_block cid = ''<div class=\"image-container\"><img src=\"'' @ (''cid:'' @ cid) @
          ''\" alt=\"Embedded Image\" style=\"max-width: 100%;\"></div>''"
    by (simp add: image_block_def)
  then show ?thesis unfolding sublist_def by blast
qed

lemma sublist_cid_document:
  assumes "cid \<in> set cids"
  shows "sublist (''cid:'' @ cid)
           (tpl_title_open @ s @ tpl_style_and_header @ s @ tpl_content_open @ b @
            tpl_content_close @ concat (map image_block cids) @ tpl_footer)"
proof -
  from assms obtain before after where "cids = before @ cid # after"
    by (auto dest: split_list)
  then have "tpl_title_open @ s @ tpl_style_and_header @ s @ tpl_content_open @ b @
            tpl_content_close @ concat (map image_block cids) @ tpl_footer =
      (tpl_title_open @ s @ tpl_style_and_header @ s @
       tpl_content_open @ b @ tpl_content_close @ concat (map image_block before)) @
      image_block cid @ (concat (map image_block after) @ tpl_footer)"
    by simp
  moreover from sublist_cid_image_block [of cid] obtain ps ss where
    "image_block cid = ps @ (''cid:'' @ cid) @ ss" unfolding sublist_def by blast
  ultimately have "tpl_title_open @ s @ tpl_style_and_header @ s @ tpl_content_open @ b @
            tpl_content_close @ concat (map image_block cids) @ tpl_footer =
      ((tpl_title_open @ s @ tpl_style_and_header @ s @
       tpl_content_open @ b @ tpl_content_close @ concat (map image_block before)) @ ps) @
      (''cid:'' @ cid) @ (ss @ concat (map image_block after) @ tpl_footer)"
    by simp
  then show ?thesis unfolding sublist_def by blast
qed

lemma tpl_style_and_header_ends: "suffix ''<h1>'' tpl_style_and_header"
  unfolding tpl_style_and_header_def by (intro suffix_appendI) (simp add: suffix_to_prefix)

lemma tpl_content_open_starts: "prefix ''</h1>'' tpl_content_open"
  by (simp add: tpl_content_open_def)

lemma tpl_content_open_ends:
  "suffix ''<div class=\"content\">\<newline>        '' tpl_content_open"
  by (simp add: tpl_content_open_def suffix_to_prefix)

lemma tpl_content_close_starts: "prefix ''\<newline>      </div>'' tpl_content_close"
  by (simp add: tpl_content_close_def)

lemma document_heading:
  "sublist (''<h1>'' @ s @ ''</h1>'')
     (tpl_title_open @ s @ tpl_style_and_header @ s @ tpl_content_open @ b @
      tpl_content_close @ images @ tpl_footer)"
proof -
  from tpl_style_and_header_ends obtain x where x: "tpl_style_and_header = x @ ''<h1>''"
    unfolding suffix_def by blast
  from tpl_content_open_starts obtain y where y: "tpl_content_open = ''</h1>'' @ y"
    unfolding prefix_def by blast
  have "tpl_title_open @ s @ tpl_style_and_header @ s @ tpl_content_open @ b @
      tpl_content_close @ images @ tpl_footer =
      (tpl_title_open @ s @ x) @ (''<h1>'' @ s @ ''</h1>'') @
      (y @ b @ tpl_content_close @ images @ tpl_footer)"
    by (subst x, subst y) simp
  then show ?thesis unfolding sublist_def by blast
qed

lemma document_content:
  "sublist (''<div class=\"content\">\<newline>        '' @ b @ ''\<newline>      </div>'')
     (tpl_title_open @ s @ tpl_style_and_header @ s @ tpl_content_open @ b @
      tpl_content_close @ images @ tpl_footer)"
proof -
  from tpl_content_open_ends obtain x where
    x: "tpl_content_open = x @ ''<div class=\"content\">\<newline>        ''"
    unfolding suffix_def by blast
  from tpl_content_close_starts obtain y where y: "tpl_content_close = ''\<newline>      </div>'' @ y"
    unfolding prefix_def by blast
  have "tpl_title_open @ s @ tpl_style_and_header @ s @ tpl_content_open @ b @
      tpl_content_close @ images @ tpl_footer =
      (tpl_title_open @ s @ tpl_style_and_header @ s @ x) @
      (''<div class=\"content\">\<newline>        '' @ b @ ''\<newline>      </div>'') @
      (y @ images @ tpl_footer)"
    by (subst x, subst y) simp
  then show ?thesis unfolding sublist_def by blast
qed

section \<open>The preview route\<close>

lemma dummy_cids_two: "dummy_cids_loop 0 2 [] = [''preview-image-1'', ''preview-image-2'']"
  by (simp add: dummy_cids_loop.simps string_of_nat.simps digit_char_def)

lemma preview_email_valid:
  assumes "subject req = Some subj" and "body req = Some bdy"
    and "truthy (Some subj)" and "truthy (Some bdy)" and "embeddedImageCount req = Some 2"
  shows "preview_email req =
     (case generateHTMLEmail subj bdy [''preview-image-1'', ''preview-image-2''] of
        Inl error \<Rightarrow> uncaught error
      | Inr html \<Rightarrow> \<lparr>status = 200, payload = Json (JObj [(''html'', JStr html)])\<rparr>)"
  using assms by (simp add: preview_email_def dummy_cids_two)

text \<open>
  Claim C8, amended. Take a preview request with truthy subject and body and
  \<^verbatim>\<open>embeddedImageCount = 2\<close>. When subject and body can be converted to strings, the
  request is answered with status 200 and the document rendered for the ids
  \<^verbatim>\<open>preview-image-1\<close> and \<^verbatim>\<open>preview-image-2\<close>. The document contains
  \<^verbatim>\<open>cid:preview-image-1\<close> and \<^verbatim>\<open>cid:preview-image-2\<close>, and apart from these two the only
  occurrences of \<^verbatim>\<open>cid:\<close> in it are those of the subject (rendered twice) and of the
  body, which are copied into the document as they are. When the subject or the body
  cannot be converted (an object with an own key \<^verbatim>\<open>toString\<close>), the renderer throws, the
  route does not catch the error, and the answer has status 500.
\<close>

theorem preview_two_images:
  assumes "subject req = Some subj" and "body req = Some bdy"
    and "truthy (Some subj)" and "truthy (Some bdy)" and "embeddedImageCount req = Some 2"
  shows "(\<forall>s b. ToString subj = Inr s \<and> ToString bdy = Inr b \<longrightarrow>
            (\<exists>html.
               generateHTMLEmail subj bdy [''preview-image-1'', ''preview-image-2''] = Inr html \<and>
               preview_email req =
                 \<lparr>status = 200, payload = Json (JObj [(''html'', JStr html)])\<rparr> \<and>
               sublist ''cid:preview-image-1'' html \<and>
               sublist ''cid:preview-image-2'' html \<and>
               count_occurrences ''cid:'' html =
                 2 + 2 * count_occurrences ''cid:'' s + count_occurrences ''cid:'' b)) \<and>
         (isl (ToString subj) \<or> isl (ToString bdy) \<longrightarrow>
            preview_email req = uncaught (JsError ''Cannot convert object to primitive value'') \<and>
            status (preview_email req) = 500)"
proof (intro conjI allI impI)
  fix s b
  assume "ToString subj = Inr s \<and> ToString bdy = Inr b"
  then have s: "ToString subj = Inr s" and b: "ToString bdy = Inr b" by simp_all
  let ?html = "tpl_title_open @ s @ tpl_style_and_header @ s @ tpl_content_open @ b @
      tpl_content_close @ concat (map image_block [''preview-image-1'', ''preview-image-2'']) @
      tpl_footer"
  have doc: "generateHTMLEmail subj bdy [''preview-image-1'', ''preview-image-2''] = Inr ?html"
    using s b by (rule generateHTMLEmail_document)
  moreover from doc have "preview_email req =
      \<lparr>status = 200, payload = Json (JObj [(''html'', JStr ?html)])\<rparr>"
    by (simp only: preview_email_valid [OF assms] sum.case)
  moreover have "sublist (''cid:'' @ ''preview-image-1'') ?html"
    by (rule sublist_cid_document) simp
  then have "sublist ''cid:preview-image-1'' ?html" by simp
  moreover have "sublist (''cid:'' @ ''preview-image-2'') ?html"
    by (rule sublist_cid_document) simp
  then have "sublist ''cid:preview-image-2'' ?html" by simp
  moreover have "count_occurrences ''cid:'' ?html =
      2 + 2 * count_occurrences ''cid:'' s + count_occurrences ''cid:'' b"
    by (simp only: count_cid_document) simp
  ultimately show "\<exists>html.
      generateHTMLEmail subj bdy [''preview-image-1'', ''preview-image-2''] = Inr html \<and>
      preview_email req = \<lparr>status = 200, payload = Json (JObj [(''html'', JStr html)])\<rparr> \<and>
      sublist ''cid:preview-image-1'' html \<and> sublist ''cid:preview-image-2'' html \<and>
      count_occurrences ''cid:'' html =
        2 + 2 * count_occurrences ''cid:'' s + count_occurrences ''cid:'' b"
    by blast
next
  assume "isl (ToString subj) \<or> isl (ToString bdy)"
  from generateHTMLEmail_throws [OF this]
  show "preview_email req = uncaught (JsError ''Cannot convert object to primitive value'')"
    by (simp only: preview_email_valid [OF assms] sum.case)
  then show "status (preview_email req) = 500" by (simp add: uncaught_def)
qed

theorem preview_two_images_witness:
  "subject preview_request = Some (JStr ''Hi'') \<and> body preview_request = Some (JStr ''Hello'') \<and>
   truthy (Some (JStr ''Hi'')) \<and> truthy (Some (JStr ''Hello'')) \<and>
   embeddedImageCount preview_request = Some 2 \<and>
   ToString (JStr ''Hi'') = Inr ''Hi'' \<and> ToString (JStr ''Hello'') = Inr ''Hello'' \<and>
   (\<exists>html.
      generateHTMLEmail (JStr ''Hi'') (JStr ''Hello'') [''preview-image-1'', ''preview-image-2''] =
        Inr html \<and>
      preview_email preview_request =
        \<lparr>status = 200, payload = Json (JObj [(''html'', JStr html)])\<rparr> \<and>
      sublist ''cid:preview-image-1'' html \<and> sublist ''cid:preview-image-2'' html \<and>
      count_occurrences ''cid:'' html = 2) \<and>
   subject preview_request_object = Some (JStr ''Hi'') \<and>
   body preview_request_object = Some (JObj [(''toString'', JNum 1)]) \<and>
   truthy (Some (JObj [(''toString'', JNum 1)])) \<and>
   embeddedImageCount preview_request_object = Some 2 \<and>
   isl (ToString (JObj [(''toString'', JNum 1)])) \<and>
   status (preview_email preview_request_object) = 500"
proof -
  have hyps: "subject preview_request = Some (JStr ''Hi'')" "body preview_request = Some (JStr ''Hello'')"
    "truthy (Some (JStr ''Hi''))" "truthy (Some (JStr ''Hello''))"
    "embeddedImageCount preview_request = Some 2"
    by (simp_all add: preview_request_def example_request_def)
  have strings: "ToString (JStr ''Hi'') = Inr ''Hi''" "ToString (JStr ''Hello'') = Inr ''Hello''"
    by simp_all
  have object: "subject preview_request_object = Some (JStr ''Hi'')"
    "body preview_request_object = Some (JObj [(''toString'', JNum 1)])"
    "truthy (Some (JStr ''Hi''))" "truthy (Some (JObj [(''toString'', JNum 1)]))"
    "embeddedImageCount preview_request_object = Some 2"
    by (simp_all add: preview_request_object_def preview_request_def example_request_def)
  have throws: "isl (ToString (JObj [(''toString'', JNum 1)]))" by simp
  from preview_two_images [OF hyps] strings obtain html where
    html: "generateHTMLEmail (JStr ''Hi'') (JStr ''Hello'') [''preview-image-1'', ''preview-image-2''] =
        Inr html"
      "preview_email preview_request =
        \<lparr>status = 200, payload = Json (JObj [(''html'', JStr html)])\<rparr>"
      "sublist ''cid:preview-image-1'' html" "sublist ''cid:preview-image-2'' html"
    and count: "count_occurrences ''cid:'' html =
        2 + 2 * count_occurrences ''cid:'' ''Hi'' + count_occurrences ''cid:'' ''Hello''"
    by blast
  from count have "count_occurrences ''cid:'' html = 2" by simp
  with html have "\<exists>html.
      generateHTMLEmail (JStr ''Hi'') (JStr ''Hello'') [''preview-image-1'', ''preview-image-2''] =
        Inr html \<and>
      preview_email preview_request =
        \<lparr>status = 200, payload = Json (JObj [(''html'', JStr html)])\<rparr> \<and>
      sublist ''cid:preview-image-1'' html \<and> sublist ''cid:preview-image-2'' html \<and>
      count_occurrences ''cid:'' html = 2"
    by blast
  moreover from preview_two_images [OF object] throws
  have "status (preview_email preview_request_object) = 500" by blast
  ultimately show ?thesis using hyps strings object throws by blast
qed

text \<open>
  Claim C8 as stated fails in two ways: a body that mentions \<^verbatim>\<open>cid:logo\<close> is copied
  into the document, which then holds three \<^verbatim>\<open>cid:\<close> references; and for a body that
  is an object with an own key \<^verbatim>\<open>toString\<close> the answer has status 500 and no document.
\<close>

theorem preview_other_cid_counterexample:
  "embeddedImageCount preview_request_cid = Some 2 \<and>
   preview_email preview_request_cid =
     \<lparr>status = 200,
      payload = Json (JObj [(''html'',
        JStr (tpl_title_open @ ''Hi'' @ tpl_style_and_header @ ''Hi'' @ tpl_content_open @
              ''see cid:logo'' @ tpl_content_close @ image_block ''preview-image-1'' @
              image_block ''preview-image-2'' @ tpl_footer))])\<rparr> \<and>
   count_occurrences ''cid:''
     (tpl_title_open @ ''Hi'' @ tpl_style_and_header @ ''Hi'' @ tpl_content_open @
      ''see cid:logo'' @ tpl_content_close @ image_block ''preview-image-1'' @
      image_block ''preview-image-2'' @ tpl_footer) = 3 \<and>
   sublist ''cid:logo''
     (tpl_title_open @ ''Hi'' @ tpl_style_and_header @ ''Hi'' @ tpl_content_open @
      ''see cid:logo'' @ tpl_content_close @ image_block ''preview-image-1'' @
      image_block ''preview-image-2'' @ tpl_footer) \<and>
   embeddedImageCount preview_request_object = Some 2 \<and>
   subject preview_request_object = Some (JStr ''Hi'') \<and>
   body preview_request_object = Some (JObj [(''toString'', JNum 1)]) \<and>
   preview_email preview_request_object =
     uncaught (JsError ''Cannot convert object to primitive value'') \<and>
   status (preview_email preview_request_object) = 500"
proof -
  let ?html = "tpl_title_open @ ''Hi'' @ tpl_style_and_header @ ''Hi'' @ tpl_content_open @
      ''see cid:logo'' @ tpl_content_close @ image_block ''preview-image-1'' @
      image_block ''preview-image-2'' @ tpl_footer"
  have object: "preview_email preview_request_object =
      uncaught (JsError ''Cannot convert object to primitive value'')"
    by (simp add: preview_email_def preview_request_object_def preview_request_def
        example_request_def dummy_cids_two generateHTMLEmail_def)
  then have "status (preview_email preview_request_object) = 500"
    by (simp add: uncaught_def)
  moreover have "embeddedImageCount preview_request_object = Some 2"
    and "subject preview_request_object = Some (JStr ''Hi'')"
    and "body preview_request_object = Some (JObj [(''toString'', JNum 1)])"
    by (simp_all add: preview_request_object_def preview_request_def example_request_def)
  moreover note object
  moreover
  have "?html =
      (tpl_title_open @ ''Hi'' @ tpl_style_and_header @ ''Hi'' @ tpl_content_open @ ''see '') @
      ''cid:logo'' @
      (tpl_content_close @ image_block ''preview-image-1'' @ image_block ''preview-image-2'' @
       tpl_footer)"
    by simp
  then have "sublist ''cid:logo'' ?html"
    unfolding sublist_def by blast
  moreover have "count_occurrences ''cid:'' ?html = 3"
    using count_cid_document [of "''Hi''" "''see cid:logo''" "[''preview-image-1'', ''preview-image-2'']"]
    by simp
  moreover have "preview_email preview_request_cid =
      \<lparr>status = 200, payload = Json (JObj [(''html'', JStr ?html)])\<rparr>"
    by (simp add: preview_email_def preview_request_cid_def preview_request_def example_request_def
        dummy_cids_two generateHTMLEmail_def)
  moreover have "embeddedImageCount preview_request_cid = Some 2"
    by (simp add: preview_request_cid_def preview_request_def example_request_def)
  ultimately show ?thesis by (intro conjI)
qed

section \<open>Successful runs of the send route\<close>

lemma send_email_success:
  assumes "status (fst (send_email e req)) = 200"
  shows "\<exists>to' subj bdy st1 st2 html plain.
           to req = Some to' \<and> subject req = Some subj \<and> body req = Some bdy \<and>
           embedded_images_loop e 0 (keys_to_fetch (embeddedImageKeys req)) initial_state = Inr st1 \<and>
           html_and_text (use_template req) subj bdy (embeddedImageCids st1) = Inr (html, plain) \<and>
           attachments_loop e (keys_to_fetch (attachmentKeys req)) st1 = Inr st2 \<and>
           fst (send_email e req) =
             \<lparr>status = 200,
              payload = Json (JObj [(''message'', JStr ''Email sent successfully''),
                                    (''htmlGenerated'', use_template req)])\<rparr> \<and>
           snd (send_email e req) =
             map S3GetObject (keys_to_fetch (embeddedImageKeys req) @
                              keys_to_fetch (attachmentKeys req)) @
             [SgMailSend (composed_message e to' subj st2 html plain),
              EmailLogCreate (composed_doc to' subj bdy st2 html)]"
proof -
  from assms have "truthy (to req) \<and> truthy (subject req) \<and> truthy (body req)"
    using send_email_runs [of e req] by simp
  with send_email_valid [of req e] obtain to' subj bdy where
    fields: "to req = Some to'" "subject req = Some subj" "body req = Some bdy"
    and run: "send_email e req =
         (case send_email_try e to' subj bdy req of
            Inl (error, cs) \<Rightarrow> (failure_response ''Failed to send email'' error, cs)
          | Inr (useHtml, cs) \<Rightarrow>
              (\<lparr>status = 200,
                payload = Json (JObj [(''message'', JStr ''Email sent successfully''),
                                      (''htmlGenerated'', useHtml)])\<rparr>, cs))"
    by blast
  show ?thesis
  proof (cases "send_email_try e to' subj bdy req")
    case (Inl thrown)
    with run assms show ?thesis by (simp split: prod.splits)
  next
    case (Inr ok)
    obtain u cs where ok: "ok = (u, cs)" by (cases ok)
    from send_email_try_Inr [OF Inr [unfolded ok]] run Inr ok fields show ?thesis
      by (auto simp: use_template_def)
  qed
qed

lemma html_and_text_plain:
  assumes "html_and_text u subj bdy cids = Inr (html, plain)" and "\<not> truthy (Some u)"
  shows "\<exists>s. bdy = JStr s \<and> html = JStr s \<and> plain = JStr (strip_tags s)"
  using assms by (cases bdy) (auto simp: html_and_text_def)


text \<open>On the send route the error of a conversion is caught like any other: the answer
  is the 500 failure response with the error's message, and nothing is sent or logged.\<close>

lemma send_email_object_body:
  "send_email example_env preview_request_object =
     (failure_response ''Failed to send email''
        (JsError ''Cannot convert object to primitive value''), [])"
  by (simp add: send_email_def send_email_try_def use_template_def Let_def
      preview_request_object_def preview_request_def example_request_def
      html_and_text_def generateHTMLEmail_def initial_state_def)

lemma example_html_text:
  "example_html = tpl_title_open @ ''Hi'' @ tpl_style_and_header @ ''Hi'' @
     tpl_content_open @ ''Hello'' @ tpl_content_close @ tpl_footer"
  by (simp add: example_html_def generateHTMLEmail_document [of _ "''Hi''" _ "''Hello''"])

lemma example_html_rendered:
  "generateHTMLEmail (JStr ''Hi'') (JStr ''Hello'') [] = Inr example_html"
  by (simp add: example_html_def generateHTMLEmail_def)

lemma example_html_no_tight_content:
  "\<not> sublist ''<div class=\"content\">Hello</div>'' example_html"
  unfolding example_html_text
  by (simp add: tpl_title_open_def tpl_style_and_header_def tpl_content_open_def
      tpl_content_close_def tpl_footer_def sublist_Cons_right)

lemma example_run:
  assumes "sgMail_send e (example_message e) = None" and "EmailLog_create e example_doc = None"
  shows "send_email e example_request =
     (\<lparr>status = 200,
       payload = Json (JObj [(''message'', JStr ''Email sent successfully''),
                             (''htmlGenerated'', JBool True)])\<rparr>,
      [SgMailSend (example_message e), EmailLogCreate example_doc])"
  using assms
  by (simp add: send_email_def send_email_try_def use_template_def Let_def example_request_def
      html_and_text_def generateHTMLEmail_def composed_message_def composed_doc_def initial_state_def
      example_message_def example_doc_def example_html_def)

text \<open>
  Claim C3, amended. With a mail provider and a log store that accept the calls, the
  request \<^verbatim>\<open>{to: "a@b.com", subject: "Hi", body: "Hello"}\<close> sends one message and creates
  one log document, both with no attachments, and is answered with status 200 and
  \<^verbatim>\<open>{message: "Email sent successfully", htmlGenerated: true}\<close>. The HTML of the message
  contains \<^verbatim>\<open><h1>Hi</h1>\<close>; the body stands on a line of its own between
  \<^verbatim>\<open><div class="content">\<close> and \<^verbatim>\<open></div>\<close>, separated from both by a line break and the
  indentation of the template.
\<close>

theorem example_send:
  assumes "sgMail_send e (example_message e) = None" and "EmailLog_create e example_doc = None"
  shows "send_email e example_request =
           (\<lparr>status = 200,
             payload = Json (JObj [(''message'', JStr ''Email sent successfully''),
                                   (''htmlGenerated'', JBool True)])\<rparr>,
            [SgMailSend (example_message e), EmailLogCreate example_doc]) \<and>
         msg_html (example_message e) = JStr example_html \<and>
         sublist ''<h1>Hi</h1>'' example_html \<and>
         sublist ''<div class=\"content\">\<newline>        Hello\<newline>      </div>'' example_html \<and>
         msg_attachments (example_message e) = [] \<and>
         doc_embeddedImages example_doc = [] \<and> doc_attachments example_doc = []"
proof -
  have "sublist (''<h1>'' @ ''Hi'' @ ''</h1>'') example_html"
    using document_heading [where s = "''Hi''" and b = "''Hello''" and images = "[]"]
    by (simp only: example_html_text append_Nil)
  moreover have "sublist (''<div class=\"content\">\<newline>        '' @ ''Hello'' @
       ''\<newline>      </div>'') example_html"
    using document_content [where s = "''Hi''" and b = "''Hello''" and images = "[]"]
    by (simp only: example_html_text append_Nil)
  ultimately show ?thesis
    using example_run [OF assms]
    by (simp add: example_message_def example_doc_def composed_message_def composed_doc_def
        initial_state_def)
qed

theorem example_send_witness:
  "sgMail_send example_env (example_message example_env) = None \<and>
   EmailLog_create example_env example_doc = None \<and>
   send_email example_env example_request =
     (\<lparr>status = 200,
       payload = Json (JObj [(''message'', JStr ''Email sent successfully''),
                             (''htmlGenerated'', JBool True)])\<rparr>,
      [SgMailSend (example_message example_env), EmailLogCreate example_doc]) \<and>
   sublist ''<h1>Hi</h1>'' example_html \<and>
   msg_attachments (example_message example_env) = [] \<and>
   doc_embeddedImages example_doc = [] \<and> doc_attachments example_doc = []"
proof -
  have sent: "sgMail_send example_env (example_message example_env) = None"
    and logged: "EmailLog_create example_env example_doc = None"
    by (simp_all add: example_env_def)
  from example_send [OF sent logged] sent logged show ?thesis by blast
qed

text \<open>
  Claim C3 as stated fails: the HTML sent for the example request does not contain
  \<^verbatim>\<open><div class="content">Hello</div>\<close>.
\<close>

theorem example_send_counterexample:
  "sent_messages (snd (send_email example_env example_request)) = [example_message example_env] \<and>
   msg_html (example_message example_env) = JStr example_html \<and>
   \<not> sublist ''<div class=\"content\">Hello</div>'' example_html"
proof -
  have "sgMail_send example_env (example_message example_env) = None"
    and "EmailLog_create example_env example_doc = None"
    by (simp_all add: example_env_def)
  from example_run [OF this] example_html_no_tight_content show ?thesis
    by (simp add: example_message_def composed_message_def)
qed

section \<open>The plain-text part\<close>

lemma set_tl_subset: "set (tl xs) \<subseteq> set xs"
  by (cases xs) auto

lemma set_strip_tags: "set (strip_tags s) \<subseteq> set s"
proof (induction s rule: strip_tags.induct)
  case 1
  show ?case by simp
next
  case (2 c cs)
  show ?case
  proof (cases "c = CHR ''<'' \<and> CHR ''>'' \<in> set cs")
    case True
    have "set (tl (dropWhile (\<lambda>x. x \<noteq> CHR ''>'') cs)) \<subseteq>
          set (dropWhile (\<lambda>x. x \<noteq> CHR ''>'') cs)"
      by (rule set_tl_subset)
    also have "\<dots> \<subseteq> set cs" by (blast dest: set_dropWhileD)
    finally have "set (tl (dropWhile (\<lambda>x. x \<noteq> CHR ''>'') cs)) \<subseteq> set cs" .
    moreover have "strip_tags (c # cs) = strip_tags (tl (dropWhile (\<lambda>x. x \<noteq> CHR ''>'') cs))"
      using True by simp
    ultimately show ?thesis using 2(1) [OF True] by (simp only: list.set) blast
  next
    case False
    have "strip_tags (c # cs) = c # strip_tags cs"
      by (simp only: strip_tags.simps False if_False)
    with 2(2) [OF False] show ?thesis by (simp only: list.set) blast
  qed
qed

text \<open>A text without \<^verbatim>\<open><\<close> is left as it is, and no tag-shaped substring is left in a
  stripped text: a \<^verbatim>\<open><\<close> that stays has no \<^verbatim>\<open>>\<close> after it.\<close>

lemma strip_tags_plain: "CHR ''<'' \<notin> set s \<Longrightarrow> strip_tags s = s"
proof (induction s)
  case Nil
  show ?case by simp
next
  case (Cons a s)
  then have "a \<noteq> CHR ''<''" and "strip_tags s = s" by auto
  then show ?case by simp
qed

lemma strip_tags_no_tag: "strip_tags s = u @ CHR ''<'' # v \<Longrightarrow> CHR ''>'' \<notin> set v"
proof (induction s arbitrary: u rule: strip_tags.induct)
  case 1
  then show ?case by simp
next
  case (2 c cs)
  show ?case
  proof (cases "c = CHR ''<'' \<and> CHR ''>'' \<in> set cs")
    case True
    have "strip_tags (c # cs) = strip_tags (tl (dropWhile (\<lambda>x. x \<noteq> CHR ''>'') cs))"
      using True by simp
    with "2.prems" have "strip_tags (tl (dropWhile (\<lambda>x. x \<noteq> CHR ''>'') cs)) = u @ CHR ''<'' # v"
      by (simp only:)
    from "2.IH"(1) [OF True this] show ?thesis .
  next
    case False
    have "strip_tags (c # cs) = c # strip_tags cs"
      by (simp only: strip_tags.simps False if_False)
    with "2.prems" have eq: "c # strip_tags cs = u @ CHR ''<'' # v" by (simp only:)
    show ?thesis
    proof (cases u)
      case Nil
      with eq have "c = CHR ''<''" and v: "v = strip_tags cs" by simp_all
      with False have "CHR ''>'' \<notin> set cs" by blast
      with set_strip_tags [of cs] v show ?thesis by blast
    next
      case (Cons a u')
      with eq have "strip_tags cs = u' @ CHR ''<'' # v" by simp
      from "2.IH"(2) [OF False this] show ?thesis .
    qed
  qed
qed

lemma use_template_falsy:
  "useHtmlTemplate req = Some v \<Longrightarrow> \<not> truthy (Some v) \<Longrightarrow> \<not> truthy (Some (use_template req))"
  by (simp add: use_template_def)

text \<open>
  Claim C1, amended. In a request that succeeds with a falsy \<^verbatim>\<open>useHtmlTemplate\<close> the body
  is a string; the text part of the sent message is that string with every tag-shaped
  substring removed, its HTML part is the string itself, and the \<^verbatim>\<open>body\<close> and
  \<^verbatim>\<open>htmlBody\<close> fields of the created log document both hold the string as submitted.
\<close>

theorem plain_text_without_template:
  assumes ok: "status (fst (send_email e req)) = 200"
    and flag: "useHtmlTemplate req = Some v" and falsy: "\<not> truthy (Some v)"
  shows "\<exists>s. body req = Some (JStr s) \<and>
           map msg_html (sent_messages (snd (send_email e req))) = [JStr s] \<and>
           map msg_text (sent_messages (snd (send_email e req))) = [JStr (strip_tags s)] \<and>
           map doc_body (created_docs (snd (send_email e req))) = [JStr s] \<and>
           map doc_htmlBody (created_docs (snd (send_email e req))) = [JStr s]"
proof -
  from send_email_success [OF ok] obtain to' subj bdy st1 st2 html plain where
    run: "to req = Some to' \<and> subject req = Some subj \<and> body req = Some bdy \<and>
           embedded_images_loop e 0 (keys_to_fetch (embeddedImageKeys req)) initial_state = Inr st1 \<and>
           html_and_text (use_template req) subj bdy (embeddedImageCids st1) = Inr (html, plain) \<and>
           attachments_loop e (keys_to_fetch (attachmentKeys req)) st1 = Inr st2 \<and>
           fst (send_email e req) =
             \<lparr>status = 200,
              payload = Json (JObj [(''message'', JStr ''Email sent successfully''),
                                    (''htmlGenerated'', use_template req)])\<rparr> \<and>
           snd (send_email e req) =
             map S3GetObject (keys_to_fetch (embeddedImageKeys req) @
                              keys_to_fetch (attachmentKeys req)) @
             [SgMailSend (composed_message e to' subj st2 html plain),
              EmailLogCreate (composed_doc to' subj bdy st2 html)]"
    by (elim exE) (rule that, assumption)
  then have bdy: "body req = Some bdy"
    and ht: "html_and_text (use_template req) subj bdy (embeddedImageCids st1) = Inr (html, plain)"
    and cs: "snd (send_email e req) =
             map S3GetObject (keys_to_fetch (embeddedImageKeys req) @
                              keys_to_fetch (attachmentKeys req)) @
             [SgMailSend (composed_message e to' subj st2 html plain),
              EmailLogCreate (composed_doc to' subj bdy st2 html)]"
    by simp_all
  from html_and_text_plain [OF ht use_template_falsy [OF flag falsy]] obtain s where
    "bdy = JStr s" "html = JStr s" "plain = JStr (strip_tags s)" by blast
  with bdy cs show ?thesis
    by (simp add: composed_message_def composed_doc_def)
qed

lemma plain_run:
  "send_email example_env plain_request =
     (\<lparr>status = 200,
       payload = Json (JObj [(''message'', JStr ''Email sent successfully''),
                             (''htmlGenerated'', JBool False)])\<rparr>,
      [SgMailSend (composed_message example_env (JStr ''a@b.com'') (JStr ''Hi'') initial_state
                     (JStr ''<b>Hi</b>'') (JStr ''Hi'')),
       EmailLogCreate (composed_doc (JStr ''a@b.com'') (JStr ''Hi'') (JStr ''<b>Hi</b>'')
                     initial_state (JStr ''<b>Hi</b>''))])"
  by (simp add: send_email_def send_email_try_def use_template_def Let_def plain_request_def example_request_def
      example_env_def html_and_text_def generateHTMLEmail_def composed_message_def composed_doc_def initial_state_def)

theorem plain_text_without_template_witness:
  "status (fst (send_email example_env plain_request)) = 200 \<and>
   useHtmlTemplate plain_request = Some (JBool False) \<and> \<not> truthy (Some (JBool False)) \<and>
   (\<exists>s. body plain_request = Some (JStr s) \<and>
      map msg_html (sent_messages (snd (send_email example_env plain_request))) = [JStr s] \<and>
      map msg_text (sent_messages (snd (send_email example_env plain_request))) = [JStr (strip_tags s)] \<and>
      map doc_body (created_docs (snd (send_email example_env plain_request))) = [JStr s] \<and>
      map doc_htmlBody (created_docs (snd (send_email example_env plain_request))) = [JStr s])"
proof -
  have ok: "status (fst (send_email example_env plain_request)) = 200"
    by (simp add: plain_run)
  have flag: "useHtmlTemplate plain_request = Some (JBool False)"
    by (simp add: plain_request_def)
  have falsy: "\<not> truthy (Some (JBool False))" by simp
  from plain_text_without_template [OF ok flag falsy] ok flag falsy show ?thesis by blast
qed

text \<open>
  Claim C1 as stated fails: for the body \<^verbatim>\<open><b>Hi</b>\<close> the log document keeps the markup,
  while the stripped text is \<^verbatim>\<open>Hi\<close>.
\<close>

theorem log_body_not_stripped_counterexample:
  "status (fst (send_email example_env plain_request)) = 200 \<and>
   useHtmlTemplate plain_request = Some (JBool False) \<and>
   body plain_request = Some (JStr ''<b>Hi</b>'') \<and>
   map doc_body (created_docs (snd (send_email example_env plain_request))) = [JStr ''<b>Hi</b>''] \<and>
   strip_tags ''<b>Hi</b>'' = ''Hi'' \<and>
   map doc_body (created_docs (snd (send_email example_env plain_request))) \<noteq>
     [JStr (strip_tags ''<b>Hi</b>'')]"
proof -
  have "useHtmlTemplate plain_request = Some (JBool False)"
    and "body plain_request = Some (JStr ''<b>Hi</b>'')"
    by (simp_all add: plain_request_def)
  moreover have "strip_tags ''<b>Hi</b>'' = ''Hi''" by simp
  ultimately show ?thesis by (simp add: plain_run composed_doc_def)
qed

section \<open>Decimal numbers and the content ids\<close>






lemma string_of_nat_1 [simp]: "string_of_nat (Suc 0) = ''1''"
  by (simp add: string_of_nat.simps digit_char_def)

lemma string_of_nat_2 [simp]: "string_of_nat (Suc (Suc 0)) = ''2''"
  by (simp add: string_of_nat.simps digit_char_def)


lemma length_image_cids [simp]: "length (image_cids n) = n"
  by (simp add: image_cids_def del: upt_Suc)















section \<open>Searching the log\<close>













end
